theory Spec2Isabelle
  imports Main
begin

section \<open>Results and promises\<close>

text \<open>
  The operations of \<^verbatim>\<open>SSHOperations\<close> (src/sshOperations.js) answer with plain
  objects. Each shape the source builds is one constructor:
  \<^item> \<open>CommandOk output code signal\<close> is \<^verbatim>\<open>{success: true, output, code, signal}\<close>;
  \<^item> \<open>SshDown\<close> is \<^verbatim>\<open>{success: false, sshDown: true}\<close>;
  \<^item> \<open>SshDownHost host\<close> is \<^verbatim>\<open>{success: false, sshDown: true, host}\<close>;
  \<^item> \<open>Failure msg\<close> is \<^verbatim>\<open>{success: false, error: msg}\<close>;
  \<^item> \<open>Status b\<close> is \<^verbatim>\<open>{success: true, status: b}\<close>;
  \<^item> \<open>Sessions host names\<close> is \<^verbatim>\<open>{success: true, host, sessions}\<close>;
  \<^item> \<open>ReadOk data\<close> is \<^verbatim>\<open>{success: true, data}\<close> and \<open>WriteOk\<close> is \<^verbatim>\<open>{success: true}\<close>.
  The exit code and the signal of a remote process may be absent, hence the options.
\<close>

datatype result =
    CommandOk string "int option" "string option"
  | SshDown
  | SshDownHost string
  | Failure string
  | Status bool
  | Sessions string "string list"
  | ReadOk string
  | WriteOk

text \<open>The fields \<^verbatim>\<open>success\<close> and \<^verbatim>\<open>sshDown\<close>, read for their truthiness.\<close>

fun success :: "result \<Rightarrow> bool" where
  "success (CommandOk out code signal) = True"
| "success SshDown = False"
| "success (SshDownHost h) = False"
| "success (Failure msg) = False"
| "success (Status b) = True"
| "success (Sessions h ss) = True"
| "success (ReadOk d) = True"
| "success WriteOk = True"

fun sshDown :: "result \<Rightarrow> bool" where
  "sshDown SshDown = True"
| "sshDown (SshDownHost h) = True"
| "sshDown r = False"

text \<open>
  An \<^verbatim>\<open>async\<close> method returns a promise. It is fulfilled with a value, rejected
  with an exception, or it stays pending for ever. Two exceptions occur: the
  \<^verbatim>\<open>TypeError\<close> of a property read or written on \<^verbatim>\<open>undefined\<close>, \<^verbatim>\<open>null\<close> or a
  primitive, and the error that \<^verbatim>\<open>conn.connect\<close> throws when it refuses its
  configuration (\<open>ConnectFailure\<close>); no method catches either.
\<close>

datatype js_error = TypeError | ConnectFailure

datatype 'a completion = Fulfilled 'a | Rejected js_error | Pending

section \<open>One command over one connection\<close>

text \<open>
  \<^verbatim>\<open>executeCommand\<close> (lines 88 to 168) registers its handlers, calls
  \<^verbatim>\<open>conn.connect\<close>, arms the timer when \<^verbatim>\<open>timeout > 0\<close> and returns. Everything
  after that is driven by the events the runtime delivers, one at a time:
  \<^item> \<open>Ready\<close>: the connection's \<^verbatim>\<open>ready\<close> event;
  \<^item> \<open>ExecError\<close>, \<open>ExecStream\<close>: the callback of \<^verbatim>\<open>conn.exec\<close>, with an error or
    with a new stream;
  \<^item> \<open>StreamData i d\<close>, \<open>StderrData i d\<close>: a chunk on the \<open>i\<close>-th stream opened,
    already converted to text as \<^verbatim>\<open>output += data\<close> does;
  \<^item> \<open>StreamClose i code signal\<close>: the \<^verbatim>\<open>close\<close> event of that stream;
  \<^item> \<open>ConnError\<close>: the connection's \<^verbatim>\<open>error\<close> event;
  \<^item> \<open>TimeoutElapsed\<close>: the delay given to \<^verbatim>\<open>setTimeout\<close> has passed.
\<close>

datatype event =
    Ready
  | ExecError
  | ExecStream
  | StreamData nat string
  | StderrData nat string
  | StreamClose nat "int option" "string option"
  | ConnError
  | TimeoutElapsed

text \<open>
  The variables of the closure: \<open>timer\<close> says that a timeout is armed (the variable
  \<^verbatim>\<open>timer\<close> is truthy), \<open>settled\<close> is the flag of the source, \<open>resolved\<close> lists the
  arguments of every call of \<^verbatim>\<open>resolve\<close> in order. \<open>exec_pending\<close> counts the calls
  of \<^verbatim>\<open>conn.exec\<close> whose callback has not run, \<open>streams\<close> holds the \<^verbatim>\<open>output\<close>
  buffer of each stream whose handlers are registered. \<open>conn_ended\<close> and
  \<open>conn_destroyed\<close> record \<^verbatim>\<open>conn.end()\<close> and \<^verbatim>\<open>conn.destroy()\<close>.
\<close>

record exec_state =
  timer :: bool
  settled :: bool
  resolved :: "result list"
  exec_pending :: nat
  streams :: "string list"
  conn_ended :: bool
  conn_destroyed :: bool

definition connecting :: "int \<Rightarrow> exec_state" where
  "connecting timeout =
     \<lparr> timer = (timeout > 0), settled = False, resolved = [], exec_pending = 0,
       streams = [], conn_ended = False, conn_destroyed = False \<rparr>"

definition cleanup :: "exec_state \<Rightarrow> exec_state" where
  "cleanup s = (if timer s then s\<lparr>timer := False\<rparr> else s)"

text \<open>The guarded call \<^verbatim>\<open>if (!settled) { settled = true; resolve(r); }\<close>.\<close>

definition settle :: "result \<Rightarrow> exec_state \<Rightarrow> exec_state" where
  "settle r s =
     (if \<not> settled s then s\<lparr>settled := True, resolved := resolved s @ [r]\<rparr> else s)"

text \<open>
  One event. An event whose handler is not registered, or a timeout that was cleared,
  runs no code of \<^verbatim>\<open>executeCommand\<close> and leaves the state as it is.
\<close>

fun step :: "exec_state \<Rightarrow> event \<Rightarrow> exec_state" where
  "step s Ready = (cleanup s)\<lparr>exec_pending := Suc (exec_pending s)\<rparr>"
| "step s ExecError =
     (if exec_pending s = 0 then s
      else settle SshDown (s\<lparr>exec_pending := exec_pending s - 1, conn_ended := True\<rparr>))"
| "step s ExecStream =
     (if exec_pending s = 0 then s
      else s\<lparr>exec_pending := exec_pending s - 1, streams := streams s @ ['''']\<rparr>)"
| "step s (StreamData i d) =
     (if i < length (streams s) then s\<lparr>streams := (streams s)[i := streams s ! i @ d]\<rparr>
      else s)"
| "step s (StderrData i d) =
     (if i < length (streams s) then s\<lparr>streams := (streams s)[i := streams s ! i @ d]\<rparr>
      else s)"
| "step s (StreamClose i code signal) =
     (if i < length (streams s)
      then settle (CommandOk (streams s ! i) code signal) (s\<lparr>conn_ended := True\<rparr>)
      else s)"
| "step s ConnError = settle SshDown (cleanup s)"
| "step s TimeoutElapsed =
     (if timer s then settle SshDown (cleanup (s\<lparr>conn_destroyed := True\<rparr>)) else s)"

definition run :: "exec_state \<Rightarrow> event list \<Rightarrow> exec_state" where
  "run s es = foldl step s es"

text \<open>
  The terminal events of the claims, read in the state they arrive in: the value
  the call has to resolve with when the event is the first of its kind, and \<open>None\<close>
  for an event that ends nothing (data, \<^verbatim>\<open>ready\<close>, a new stream, and any event that
  cannot run a handler).
\<close>

fun terminal_outcome :: "exec_state \<Rightarrow> event \<Rightarrow> result option" where
  "terminal_outcome s (StreamClose i code signal) =
     (if i < length (streams s) then Some (CommandOk (streams s ! i) code signal) else None)"
| "terminal_outcome s ConnError = Some SshDown"
| "terminal_outcome s ExecError = (if exec_pending s = 0 then None else Some SshDown)"
| "terminal_outcome s TimeoutElapsed = (if timer s then Some SshDown else None)"
| "terminal_outcome s e = None"

fun first_terminal :: "exec_state \<Rightarrow> event list \<Rightarrow> result option" where
  "first_terminal s [] = None"
| "first_terminal s (e # es) =
     (case terminal_outcome s e of
        Some r \<Rightarrow> Some r
      | None \<Rightarrow> first_terminal (step s e) es)"

section \<open>The registry and the orchestrator's state\<close>

text \<open>
  One entry of the registry (\<^verbatim>\<open>this.config[serverName]\<close>), after \<^verbatim>\<open>loadConfig\<close> has
  filled in its defaults. The launch fields may be absent.
\<close>

record server_config =
  host :: string
  username :: string
  shell :: string
  screen_name :: string
  server_module :: "string option"
  server_script :: "string option"
  conda_env :: "string option"
  active :: bool
  httpPort :: nat

text \<open>
  The registry is a plain object (\<^verbatim>\<open>{}\<close> or the value of \<^verbatim>\<open>JSON.parse\<close>), so
  \<^verbatim>\<open>this.config[name]\<close> finds an own key first and then a member inherited from
  \<^verbatim>\<open>Object.prototype\<close>. The own keys are an association list in the order
  \<^verbatim>\<open>Object.keys\<close> enumerates them. An inherited member is a function (or, for
  \<^verbatim>\<open>__proto__\<close>, the prototype itself): it is truthy and has none of the fields of
  an entry.
\<close>

definition object_prototype_names :: "string list" where
  "object_prototype_names =
     [''constructor'', ''__defineGetter__'', ''__defineSetter__'', ''hasOwnProperty'',
      ''__lookupGetter__'', ''__lookupSetter__'', ''isPrototypeOf'',
      ''propertyIsEnumerable'', ''toString'', ''valueOf'', ''__proto__'',
      ''toLocaleString'']"

datatype entry = Own server_config | Inherited

definition config_lookup :: "(string \<times> server_config) list \<Rightarrow> string \<Rightarrow> entry option" where
  "config_lookup cfg name =
     (case map_of cfg name of
        Some c \<Rightarrow> Some (Own c)
      | None \<Rightarrow> if name \<in> set object_prototype_names then Some Inherited else None)"

text \<open>The fields read from \<^verbatim>\<open>this.config[name]\<close>; \<open>None\<close> is \<^verbatim>\<open>undefined\<close>.\<close>

fun entry_host :: "entry \<Rightarrow> string option" where
  "entry_host (Own c) = Some (host c)"
| "entry_host Inherited = None"

fun entry_screen_name :: "entry \<Rightarrow> string option" where
  "entry_screen_name (Own c) = Some (screen_name c)"
| "entry_screen_name Inherited = None"

fun entry_shell :: "entry \<Rightarrow> string option" where
  "entry_shell (Own c) = Some (shell c)"
| "entry_shell Inherited = None"

fun entry_server_module :: "entry \<Rightarrow> string option" where
  "entry_server_module (Own c) = server_module c"
| "entry_server_module Inherited = None"

fun entry_server_script :: "entry \<Rightarrow> string option" where
  "entry_server_script (Own c) = server_script c"
| "entry_server_script Inherited = None"

fun entry_conda_env :: "entry \<Rightarrow> string option" where
  "entry_conda_env (Own c) = conda_env c"
| "entry_conda_env Inherited = None"

text \<open>An entry of \<^verbatim>\<open>screenSessionCache\<close>: \<^verbatim>\<open>{timestamp, sessions}\<close>, the time in ms.\<close>

record cache_entry =
  timestamp :: int
  sessions :: "string list"

text \<open>
  The cache is a map from host to entry. It is a plain object too, but a member it
  inherits is never fresh (it has no \<^verbatim>\<open>timestamp\<close>, so the age is \<^verbatim>\<open>NaN\<close>) and a
  write replaces it, so that for the code it is as good as absent.
  \<open>connections\<close> is not a field of the source: it logs every call of
  \<^verbatim>\<open>conn.connect\<close> made by \<^verbatim>\<open>executeCommand\<close>, as the pair of the host connected to
  and the command to send, so that "no remote call" can be stated.
\<close>

record ssh_ops =
  config :: "(string \<times> server_config) list"
  screenSessionCache :: "string \<rightharpoonup> cache_entry"
  connections :: "(string option \<times> string) list"

text \<open>
  What becomes of one connection: \<^verbatim>\<open>conn.connect\<close> throws (ssh2 does so for a
  private key it cannot parse or a missing user name), or it returns and the events
  listed are delivered later.
\<close>

datatype transport = ConnectThrows | Delivers "event list"

text \<open>
  \<^verbatim>\<open>executeCommand(serverName, command, timeout)\<close>: when \<^verbatim>\<open>this.config[serverName]\<close>
  is falsy it resolves at once, before any connection exists. Otherwise it calls
  \<^verbatim>\<open>conn.connect\<close>. A throw there leaves the executor of the promise, which is
  thereby rejected; no timer is armed yet. Without a throw the promise takes the
  argument of the first call of \<^verbatim>\<open>resolve\<close> made while the events are handled; with
  no such call it stays pending.
\<close>

definition executeCommand ::
  "ssh_ops \<Rightarrow> string \<Rightarrow> string \<Rightarrow> int \<Rightarrow> transport \<Rightarrow> result completion \<times> ssh_ops" where
  "executeCommand ops serverName command timeout tr =
     (case config_lookup (config ops) serverName of
        None \<Rightarrow> (Fulfilled SshDown, ops)
      | Some serverConfig \<Rightarrow>
          ((case tr of
              ConnectThrows \<Rightarrow> Rejected ConnectFailure
            | Delivers evs \<Rightarrow>
                (case resolved (run (connecting timeout) evs) of
                   [] \<Rightarrow> Pending
                 | r # rs \<Rightarrow> Fulfilled r)),
           ops\<lparr>connections := connections ops @ [(entry_host serverConfig, command)]\<rparr>))"

section \<open>Lifecycle operations\<close>

text \<open>A value inside a template literal: an absent one prints as \<^verbatim>\<open>undefined\<close>.\<close>

fun text_of :: "string option \<Rightarrow> string" where
  "text_of None = ''undefined''"
| "text_of (Some s) = s"

text \<open>Truthiness of an optional string: absent and empty are both falsy.\<close>

fun truthy :: "string option \<Rightarrow> bool" where
  "truthy None = False"
| "truthy (Some s) = (s \<noteq> [])"

text \<open>
  \<^verbatim>\<open>startServer\<close> (lines 170 to 188). \<open>pjoin\<close> stands for \<^verbatim>\<open>path.join\<close> of the
  platform, which the repository does not define. Reading \<^verbatim>\<open>screen_name\<close> of
  \<^verbatim>\<open>undefined\<close> throws.
\<close>

definition startServer ::
  "(string \<Rightarrow> string \<Rightarrow> string) \<Rightarrow> ssh_ops \<Rightarrow> string \<Rightarrow> transport
     \<Rightarrow> result completion \<times> ssh_ops" where
  "startServer pjoin ops serverName tr =
     (case config_lookup (config ops) serverName of
        None \<Rightarrow> (Rejected TypeError, ops)
      | Some serverConfig \<Rightarrow>
          (let screenLogPath =
                 pjoin ''.afl'' (text_of (entry_screen_name serverConfig) @ ''.screenlog'') in
           if truthy (entry_server_module serverConfig) then
             (let command0 = ''python -m '' @ text_of (entry_server_module serverConfig);
                  command =
                    (if truthy (entry_conda_env serverConfig)
                     then ''conda activate '' @ text_of (entry_conda_env serverConfig) @ '';''
                          @ command0
                     else command0);
                  startCommand =
                    ''screen -d -m -L -Logfile ${HOME}/'' @ screenLogPath @ '' -S ''
                    @ text_of (entry_screen_name serverConfig) @ '' ''
                    @ text_of (entry_shell serverConfig) @ '' -ci ''
                    @ [CHR 0x22] @ command @ [CHR 0x22]
              in executeCommand ops serverName startCommand 0 tr)
           else if truthy (entry_server_script serverConfig) then
             (let startCommand =
                    ''screen -d -m -L -Logfile ${HOME}/'' @ screenLogPath @ '' -S ''
                    @ text_of (entry_screen_name serverConfig) @ '' ''
                    @ text_of (entry_server_script serverConfig)
              in executeCommand ops serverName startCommand 0 tr)
           else
             (Fulfilled (Failure ''Neither server_module nor server_script specified in config''),
              ops)))"

definition stopServer ::
  "ssh_ops \<Rightarrow> string \<Rightarrow> transport \<Rightarrow> result completion \<times> ssh_ops" where
  "stopServer ops serverName tr =
     (case config_lookup (config ops) serverName of
        None \<Rightarrow> (Rejected TypeError, ops)
      | Some serverConfig \<Rightarrow>
          (let stopCommand =
                 ''screen -X -S '' @ text_of (entry_screen_name serverConfig) @ '' quit''
           in executeCommand ops serverName stopCommand 0 tr))"

text \<open>
  \<^verbatim>\<open>restartServer\<close> (lines 196 to 202) calls \<^verbatim>\<open>this.stopServer\<close> and
  \<^verbatim>\<open>this.startServer\<close>. Its body is given over any two such methods, so that it can
  be examined with a stop that fails in any way; \<open>restartServer\<close> is the body over the
  methods of the class. A rejected or pending \<^verbatim>\<open>await\<close> ends the method there.
\<close>

definition restartServer_body ::
  "(ssh_ops \<Rightarrow> result completion \<times> ssh_ops) \<Rightarrow> (ssh_ops \<Rightarrow> result completion \<times> ssh_ops)
     \<Rightarrow> ssh_ops \<Rightarrow> result completion \<times> ssh_ops" where
  "restartServer_body stop start ops =
     (case stop ops of
        (Fulfilled stopResult, ops1) \<Rightarrow>
          if \<not> success stopResult \<and> \<not> sshDown stopResult then (Fulfilled stopResult, ops1)
          else start ops1
      | (Rejected e, ops1) \<Rightarrow> (Rejected e, ops1)
      | (Pending, ops1) \<Rightarrow> (Pending, ops1))"

definition restartServer ::
  "(string \<Rightarrow> string \<Rightarrow> string) \<Rightarrow> ssh_ops \<Rightarrow> string \<Rightarrow> transport \<Rightarrow> transport
     \<Rightarrow> result completion \<times> ssh_ops" where
  "restartServer pjoin ops serverName tr_stop tr_start =
     restartServer_body (\<lambda>o1. stopServer o1 serverName tr_stop)
       (\<lambda>o1. startServer pjoin o1 serverName tr_start) ops"

text \<open>\<^verbatim>\<open>String(n)\<close> for a natural number: its decimal digits.\<close>

definition digit_char :: "nat \<Rightarrow> char" where
  "digit_char d = ''0123456789'' ! d"

function dec :: "nat \<Rightarrow> string" where
  "dec n = (if n < 10 then [digit_char n] else dec (n div 10) @ [digit_char (n mod 10)])"
  by pat_completeness auto
termination
  by (relation "measure (\<lambda>n. n)") auto

definition getServerLog ::
  "(string \<Rightarrow> string \<Rightarrow> string) \<Rightarrow> ssh_ops \<Rightarrow> string \<Rightarrow> nat \<Rightarrow> transport
     \<Rightarrow> result completion \<times> ssh_ops" where
  "getServerLog pjoin ops serverName lines tr =
     (case config_lookup (config ops) serverName of
        None \<Rightarrow> (Rejected TypeError, ops)
      | Some serverConfig \<Rightarrow>
          (let logPath =
                 pjoin ''.afl'' (text_of (entry_screen_name serverConfig) @ ''.screenlog'');
               logCommand = ''tail -n '' @ dec lines @ '' ${HOME}/'' @ logPath
           in executeCommand ops serverName logCommand 0 tr))"

definition joinServer ::
  "ssh_ops \<Rightarrow> string \<Rightarrow> transport \<Rightarrow> result completion \<times> ssh_ops" where
  "joinServer ops serverName tr =
     (case config_lookup (config ops) serverName of
        None \<Rightarrow> (Rejected TypeError, ops)
      | Some serverConfig \<Rightarrow>
          (let joinCommand = ''screen -x '' @ text_of (entry_screen_name serverConfig)
           in executeCommand ops serverName joinCommand 0 tr))"

section \<open>Parsing the session listing\<close>

text \<open>
  Characters stand for the code units below 256. \<^verbatim>\<open>\d\<close> is an ASCII digit;
  \<^verbatim>\<open>\s\<close> is, in that range, tab, line feed, vertical tab, form feed, carriage
  return, space and the no-break space.
\<close>

definition is_digit :: "char \<Rightarrow> bool" where
  "is_digit c = (48 \<le> (of_char c :: nat) \<and> (of_char c :: nat) \<le> 57)"

definition is_space :: "char \<Rightarrow> bool" where
  "is_space c = ((of_char c :: nat) \<in> {9, 10, 11, 12, 13, 32, 160})"

text \<open>
  The pattern \<^verbatim>\<open>/\d+\.([^\s\t]+)/\<close> tried at the start of \<open>l\<close>. The digits are
  taken greedily; giving one back can never help, since the character after a
  shorter run is a digit and not the dot. The group takes every character up to the
  next white space and needs at least one. The value is the group.
\<close>

definition match_here :: "string \<Rightarrow> string option" where
  "match_here l =
     (if takeWhile is_digit l = [] then None
      else (case dropWhile is_digit l of
              [] \<Rightarrow> None
            | c # r \<Rightarrow>
                if c = CHR ''.'' \<and> takeWhile (\<lambda>x. \<not> is_space x) r \<noteq> []
                then Some (takeWhile (\<lambda>x. \<not> is_space x) r)
                else None))"

text \<open>\<^verbatim>\<open>line.match(...)\<close> without the \<^verbatim>\<open>g\<close> flag: the leftmost start that matches.\<close>

fun line_match :: "string \<Rightarrow> string option" where
  "line_match [] = None"
| "line_match (c # cs) =
     (case match_here (c # cs) of
        Some nm \<Rightarrow> Some nm
      | None \<Rightarrow> line_match cs)"

text \<open>\<^verbatim>\<open>output.split('\n')\<close>: always at least one piece, the last may be empty.\<close>

fun split_lines :: "string \<Rightarrow> string list" where
  "split_lines [] = [[]]"
| "split_lines (c # cs) =
     (if c = CHR 0x0A then [] # split_lines cs
      else (case split_lines cs of
              [] \<Rightarrow> [[c]]
            | l # ls \<Rightarrow> (c # l) # ls))"

text \<open>The loop over the lines, \<open>acc\<close> being \<^verbatim>\<open>screenSessions\<close> so far.\<close>

fun collect_sessions :: "string list \<Rightarrow> string list \<Rightarrow> string list" where
  "collect_sessions acc [] = acc"
| "collect_sessions acc (l # ls) =
     (case line_match l of
        Some nm \<Rightarrow> collect_sessions (acc @ [nm]) ls
      | None \<Rightarrow> collect_sessions acc ls)"

definition parse_sessions :: "string \<Rightarrow> string list" where
  "parse_sessions output = collect_sessions [] (split_lines output)"

text \<open>
  What the claims call a digits-dot-name token: somewhere in the line, one or more
  digits, a dot, and one or more characters that are not white space.
\<close>

definition has_token :: "string \<Rightarrow> bool" where
  "has_token l =
     (\<exists>pre ds nm post. l = pre @ ds @ ''.'' @ nm @ post
        \<and> ds \<noteq> [] \<and> list_all is_digit ds \<and> nm \<noteq> [] \<and> list_all (\<lambda>x. \<not> is_space x) nm)"

text \<open>A listing written line by line: the lines with a line feed between them.\<close>

fun join_lines :: "string list \<Rightarrow> string" where
  "join_lines [] = []"
| "join_lines [l] = l"
| "join_lines (l # l' # ls) = l @ CHR 0x0A # join_lines (l' # ls)"

section \<open>Status cache and batch resolver\<close>

text \<open>\<^verbatim>\<open>names.includes(x)\<close> on a list of strings; \<^verbatim>\<open>undefined\<close> is in none.\<close>

fun js_includes :: "string list \<Rightarrow> string option \<Rightarrow> bool" where
  "js_includes names None = False"
| "js_includes names (Some x) = (x \<in> set names)"

text \<open>
  \<^verbatim>\<open>getServerStatus\<close> (lines 204 to 258) in two parts, cut at the \<^verbatim>\<open>await\<close> of line
  222. \<open>status_after_await\<close> is lines 224 to 257: it runs when the promise of
  \<^verbatim>\<open>executeCommand\<close> has settled, on the state the orchestrator has by then, with the
  entry and the value of \<^verbatim>\<open>now\<close> of the call. The fallback of a successful result
  without \<^verbatim>\<open>output\<close> is the \<^verbatim>\<open>TypeError\<close> of \<^verbatim>\<open>undefined.split\<close>.
\<close>

definition status_after_await ::
  "ssh_ops \<Rightarrow> entry \<Rightarrow> int \<Rightarrow> result completion \<Rightarrow> result completion \<times> ssh_ops" where
  "status_after_await ops serverConfig now settled_with =
     (case settled_with of
        Fulfilled res \<Rightarrow>
          if \<not> success res then (Fulfilled SshDown, ops)
          else (case res of
                  CommandOk output code signal \<Rightarrow>
                    (let screenSessions = parse_sessions output
                     in (Fulfilled (Status (js_includes screenSessions
                                              (entry_screen_name serverConfig))),
                         ops\<lparr>screenSessionCache := (screenSessionCache ops)
                           (text_of (entry_host serverConfig) \<mapsto>
                              \<lparr>timestamp = now, sessions = screenSessions\<rparr>)\<rparr>))
                | _ \<Rightarrow> (Rejected TypeError, ops))
      | Rejected e \<Rightarrow> (Rejected e, ops)
      | Pending \<Rightarrow> (Pending, ops))"

text \<open>
  The whole call, when nothing else runs between the call of \<^verbatim>\<open>executeCommand\<close> and
  the end of the \<^verbatim>\<open>await\<close>. \<open>now\<close> is the value of \<^verbatim>\<open>Date.now()\<close> at line 212, read
  before any remote call. Between the two parts the state is the second component
  of \<open>executeCommand\<close>: the connection is open, the cache is not yet written.
\<close>

definition getServerStatus ::
  "ssh_ops \<Rightarrow> string \<Rightarrow> int \<Rightarrow> transport \<Rightarrow> result completion \<times> ssh_ops" where
  "getServerStatus ops serverName now tr =
     (case config_lookup (config ops) serverName of
        None \<Rightarrow> (Rejected TypeError, ops)
      | Some serverConfig \<Rightarrow>
          (case (case screenSessionCache ops (text_of (entry_host serverConfig)) of
                   None \<Rightarrow> None
                 | Some cachedData \<Rightarrow>
                     if now - timestamp cachedData < 5000 then Some cachedData else None) of
             Some cachedData \<Rightarrow>
               (Fulfilled (Status (js_includes (sessions cachedData)
                                     (entry_screen_name serverConfig))), ops)
           | None \<Rightarrow>
               (case executeCommand ops serverName ''screen -ls'' 500 tr of
                  (settled_with, ops1) \<Rightarrow>
                    status_after_await ops1 serverConfig now settled_with)))"

text \<open>
  Lines 263 to 265: the first own key whose entry has the host, if any.
\<close>

definition batch_server :: "(string \<times> server_config) list \<Rightarrow> string \<Rightarrow> string option" where
  "batch_server cfg h =
     List.find
       (\<lambda>name. case map_of cfg name of
                  None \<Rightarrow> False
                | Some serverConfig \<Rightarrow> host serverConfig = h)
       (map fst cfg)"

text \<open>
  \<^verbatim>\<open>getBatchServerStatus\<close> (lines 261 to 301). An empty server name is falsy and
  counts as none. \<open>now\<close> is \<^verbatim>\<open>Date.now()\<close> at line 290, read after the command
  has finished.
\<close>

definition getBatchServerStatus ::
  "ssh_ops \<Rightarrow> string \<Rightarrow> int \<Rightarrow> transport \<Rightarrow> result completion \<times> ssh_ops" where
  "getBatchServerStatus ops h now tr =
     (case batch_server (config ops) h of
        None \<Rightarrow> (Fulfilled (Failure (''No server configured for host '' @ h)), ops)
      | Some serverName \<Rightarrow>
          if serverName = [] then
            (Fulfilled (Failure (''No server configured for host '' @ h)), ops)
          else
            (case executeCommand ops serverName ''screen -ls'' 500 tr of
               (Fulfilled res, ops1) \<Rightarrow>
                 if \<not> success res then (Fulfilled (SshDownHost h), ops1)
                 else (case res of
                         CommandOk output code signal \<Rightarrow>
                           (let screenSessions = parse_sessions output
                            in (Fulfilled (Sessions h screenSessions),
                                ops1\<lparr>screenSessionCache := (screenSessionCache ops1)
                                  (h \<mapsto> \<lparr>timestamp = now, sessions = screenSessions\<rparr>)\<rparr>))
                       | _ \<Rightarrow> (Rejected TypeError, ops1))
             | (Rejected e, ops1) \<Rightarrow> (Rejected e, ops1)
             | (Pending, ops1) \<Rightarrow> (Pending, ops1)))"

section \<open>The remote document\<close>

text \<open>
  \<^verbatim>\<open>getServerForHost\<close>: the entry of the first server on the host, or \<^verbatim>\<open>null\<close>.
\<close>

definition getServerForHost ::
  "(string \<times> server_config) list \<Rightarrow> string \<Rightarrow> server_config option" where
  "getServerForHost cfg h =
     (case List.find (\<lambda>(name, c). host c = h) cfg of
        None \<Rightarrow> None
      | Some entry \<Rightarrow> Some (snd entry))"

text \<open>
  What the transport does with one file-transfer session, named after the place of
  \<^verbatim>\<open>readRemoteFile\<close> and \<^verbatim>\<open>writeRemoteFile\<close> that settles the promise first: a
  throw of \<^verbatim>\<open>connect\<close> (which rejects it), the connection's \<^verbatim>\<open>error\<close> event, the
  error of \<^verbatim>\<open>conn.sftp\<close>, the error of the transfer, its success, or no answer at
  all.
\<close>

datatype 'a sftp_reply =
    ConnectThrew
  | ConnectionError string
  | SftpError string
  | TransferError string
  | TransferDone 'a
  | NoReply

definition readRemoteFile ::
  "(string \<times> server_config) list \<Rightarrow> string \<Rightarrow> string \<Rightarrow> string sftp_reply
     \<Rightarrow> result completion" where
  "readRemoteFile cfg h remotePath reply =
     (case getServerForHost cfg h of
        None \<Rightarrow> Fulfilled (Failure (''No server for host '' @ h))
      | Some server \<Rightarrow>
          (case reply of
             ConnectThrew \<Rightarrow> Rejected ConnectFailure
           | ConnectionError msg \<Rightarrow> Fulfilled (Failure msg)
           | SftpError msg \<Rightarrow> Fulfilled (Failure msg)
           | TransferError msg \<Rightarrow> Fulfilled (Failure msg)
           | TransferDone d \<Rightarrow> Fulfilled (ReadOk d)
           | NoReply \<Rightarrow> Pending))"

definition writeRemoteFile ::
  "(string \<times> server_config) list \<Rightarrow> string \<Rightarrow> string \<Rightarrow> string \<Rightarrow> unit sftp_reply
     \<Rightarrow> result completion" where
  "writeRemoteFile cfg h remotePath content reply =
     (case getServerForHost cfg h of
        None \<Rightarrow> Fulfilled (Failure (''No server for host '' @ h))
      | Some server \<Rightarrow>
          (case reply of
             ConnectThrew \<Rightarrow> Rejected ConnectFailure
           | ConnectionError msg \<Rightarrow> Fulfilled (Failure msg)
           | SftpError msg \<Rightarrow> Fulfilled (Failure msg)
           | TransferError msg \<Rightarrow> Fulfilled (Failure msg)
           | TransferDone u \<Rightarrow> Fulfilled WriteOk
           | NoReply \<Rightarrow> Pending))"

text \<open>
  A JSON value as \<^verbatim>\<open>JSON.parse\<close> gives it: an object with its keys in enumeration
  order, an array, or a primitive (\<^verbatim>\<open>null\<close>, a boolean, a number, a string) whose
  content \<open>'a\<close> the code never looks at.
\<close>

datatype 'a json =
    JPrim 'a
  | JArr "'a json list"
  | JObj "(string \<times> 'a json) list"

text \<open>
  \<^verbatim>\<open>obj[k] = v\<close> on an object: an existing key keeps its place and takes the new
  value, a new key goes last (the keys written here are never array indices).
\<close>

definition obj_set :: "(string \<times> 'v) list \<Rightarrow> string \<Rightarrow> 'v \<Rightarrow> (string \<times> 'v) list" where
  "obj_set kvs k v =
     (if k \<in> fst ` set kvs then map (\<lambda>(k', v'). if k' = k then (k', v) else (k', v')) kvs
      else kvs @ [(k, v)])"

text \<open>
  The fields of \<^verbatim>\<open>new Date()\<close> that the time stamp reads: \<^verbatim>\<open>getFullYear\<close>,
  \<^verbatim>\<open>getMonth\<close> (from 0), \<^verbatim>\<open>getDate\<close>, \<^verbatim>\<open>getHours\<close>, \<^verbatim>\<open>getMinutes\<close>,
  \<^verbatim>\<open>getSeconds\<close>, \<^verbatim>\<open>getMilliseconds\<close>.
\<close>

record js_date =
  fullYear :: nat
  month0 :: nat
  date :: nat
  hours :: nat
  minutes :: nat
  seconds :: nat
  milliseconds :: nat

definition padStart :: "nat \<Rightarrow> string \<Rightarrow> string" where
  "padStart n s = replicate (n - length s) CHR ''0'' @ s"

definition pad :: "nat \<Rightarrow> string" where
  "pad n = padStart 2 (dec n)"

definition timestamp_key :: "js_date \<Rightarrow> string" where
  "timestamp_key now =
     (let micros = padStart 6 (dec (milliseconds now * 1000));
          yy = drop (length (dec (fullYear now)) - 2) (dec (fullYear now))
      in yy @ ''/'' @ pad (date now) @ ''/'' @ pad (month0 now + 1) @ '' ''
         @ pad (hours now) @ '':'' @ pad (minutes now) @ '':'' @ pad (seconds now)
         @ ''.'' @ micros)"

text \<open>
  Lines 417 to 421: the document starts empty and is replaced by the parsed text
  when the read succeeded with non-empty data and \<^verbatim>\<open>JSON.parse\<close> did not throw
  (\<open>parse\<close> gives \<open>None\<close> where it throws).
\<close>

definition existing_document :: "(string \<Rightarrow> 'a json option) \<Rightarrow> result \<Rightarrow> 'a json" where
  "existing_document parse rd =
     (case rd of
        ReadOk d \<Rightarrow>
          if d \<noteq> [] then (case parse d of Some doc \<Rightarrow> doc | None \<Rightarrow> JObj [])
          else JObj []
      | _ \<Rightarrow> JObj [])"

text \<open>
  \<^verbatim>\<open>saveRemoteAflConfig\<close> (src/unnamed/part_000, lines 413 to 430). \<open>parse\<close> and
  \<open>stringify\<close> stand for \<^verbatim>\<open>JSON.parse\<close> and \<^verbatim>\<open>JSON.stringify(., null, 2)\<close>; the
  two replies are the transport's answers to the read and to the write. The value
  is the promise of the method together with the request handed to
  \<^verbatim>\<open>writeRemoteFile\<close>, if one was made: the path and the content.

  The assignment \<^verbatim>\<open>existing[ts] = cfgObj\<close> runs in strict code (a class body): on a
  primitive it throws; on an array it sets a property that is not an index, which
  the serialisation of an array leaves out.
\<close>

definition saveRemoteAflConfig ::
  "(string \<Rightarrow> 'a json option) \<Rightarrow> ('a json \<Rightarrow> string) \<Rightarrow> (string \<times> server_config) list
     \<Rightarrow> string \<Rightarrow> 'a json \<Rightarrow> js_date \<Rightarrow> string sftp_reply \<Rightarrow> unit sftp_reply
     \<Rightarrow> result completion \<times> (string \<times> string) option" where
  "saveRemoteAflConfig parse stringify cfg h cfgObj now read_reply write_reply =
     (case getServerForHost cfg h of
        None \<Rightarrow> (Fulfilled (Failure (''No server for host '' @ h)), None)
      | Some server \<Rightarrow>
          (let remotePath = ''/home/'' @ username server @ ''/.afl/config.json'' in
           case readRemoteFile cfg h remotePath read_reply of
             Fulfilled rd \<Rightarrow>
               (let ts = timestamp_key now in
                case existing_document parse rd of
                  JPrim p \<Rightarrow> (Rejected TypeError, None)
                | JArr xs \<Rightarrow>
                    (let content = stringify (JArr xs)
                     in (writeRemoteFile cfg h remotePath content write_reply,
                         Some (remotePath, content)))
                | JObj kvs \<Rightarrow>
                    (let content = stringify (JObj (obj_set kvs ts cfgObj))
                     in (writeRemoteFile cfg h remotePath content write_reply,
                         Some (remotePath, content))))
           | Rejected e \<Rightarrow> (Rejected e, None)
           | Pending \<Rightarrow> (Pending, None)))"

section \<open>Auxiliary notions for the properties\<close>

text \<open>
  While the timer is armed the call is still opening its connection: not settled,
  no \<^verbatim>\<open>exec\<close> under way and no stream.
\<close>

definition timer_inv :: "exec_state \<Rightarrow> bool" where
  "timer_inv s = (timer s \<longrightarrow> \<not> settled s \<and> exec_pending s = 0 \<and> streams s = [])"

text \<open>The two shapes \<^verbatim>\<open>executeCommand\<close> resolves with.\<close>

definition command_result :: "result \<Rightarrow> bool" where
  "command_result r =
     (case r of SshDown \<Rightarrow> True | CommandOk out code signal \<Rightarrow> True | _ \<Rightarrow> False)"

text \<open>
  A configuration error in the sense of the specification: the promise is fulfilled
  (nothing is raised) with \<^verbatim>\<open>{success: false, error: msg}\<close>.
\<close>

definition config_error :: "result completion \<Rightarrow> bool" where
  "config_error c =
     (case c of Fulfilled (Failure msg) \<Rightarrow> True | _ \<Rightarrow> False)"

text \<open>A registry with one server and an empty cache, for evaluating the operations.\<close>

definition sample_server :: server_config where
  "sample_server =
     \<lparr> host = ''node1'', username = ''afl'', shell = ''bash'', screen_name = ''worker_a'',
       server_module = Some ''afl.server'', server_script = None, conda_env = None,
       active = True, httpPort = 5000 \<rparr>"

definition sample_ops :: ssh_ops where
  "sample_ops =
     \<lparr> config = [(''alpha'', sample_server)], screenSessionCache = Map.empty,
       connections = [] \<rparr>"

text \<open>\<^verbatim>\<open>path.join\<close> of two plain segments on a POSIX platform.\<close>

definition posix_join :: "string \<Rightarrow> string \<Rightarrow> string" where
  "posix_join a b = a @ ''/'' @ b"

text \<open>
  Stand-ins for \<^verbatim>\<open>JSON.parse\<close> and \<^verbatim>\<open>JSON.stringify\<close> in evaluations. Three
  texts parse: one to a document with one snapshot, one to the empty array, one to
  a number. The serialisation shows the top level only: the keys of an object, each
  followed by a semicolon, and a fixed word for an array or a primitive.
  \<open>sample_date\<close> is 5 January 2024, 03:04:09.007.
\<close>

definition sample_parse :: "string \<Rightarrow> nat json option" where
  "sample_parse d =
     (if d = ''old'' then Some (JObj [(''24/01/02 10:00:00.000000'', JPrim 1)])
      else if d = ''[]'' then Some (JArr [])
      else if d = ''5'' then Some (JPrim 5)
      else None)"

fun key_list :: "nat json \<Rightarrow> string" where
  "key_list (JObj kvs) = concat (map (\<lambda>(k, v). k @ '';'') kvs)"
| "key_list (JArr xs) = ''array''"
| "key_list (JPrim p) = ''primitive''"

definition sample_date :: js_date where
  "sample_date =
     \<lparr> fullYear = 2024, month0 = 0, date = 5, hours = 3, minutes = 4, seconds = 9,
       milliseconds = 7 \<rparr>"

section \<open>Exactly-once resolution\<close>

lemma settle_settled [simp]: "settled (settle r s)"
  by (simp add: settle_def)

lemma settled_cleanup [simp]: "settled (cleanup s) = settled s"
  by (simp add: cleanup_def)

lemma resolved_cleanup [simp]: "resolved (cleanup s) = resolved s"
  by (simp add: cleanup_def)

lemma step_settled: "settled s \<Longrightarrow> settled (step s e) \<and> resolved (step s e) = resolved s"
  by (cases e) (simp_all add: settle_def)

lemma run_settled: "settled s \<Longrightarrow> settled (run s es) \<and> resolved (run s es) = resolved s"
proof (induction es arbitrary: s)
  case Nil
  then show ?case by (simp add: run_def)
next
  case (Cons e es)
  from Cons.prems have "settled (step s e)" and "resolved (step s e) = resolved s"
    using step_settled by blast+
  with Cons.IH [of "step s e"] show ?case by (simp add: run_def)
qed

lemma step_terminal:
  "\<not> settled s \<Longrightarrow> terminal_outcome s e = Some r \<Longrightarrow>
     settled (step s e) \<and> resolved (step s e) = resolved s @ [r]"
  by (cases e) (auto simp: settle_def split: if_splits)

lemma step_not_terminal:
  "\<not> settled s \<Longrightarrow> terminal_outcome s e = None \<Longrightarrow>
     \<not> settled (step s e) \<and> resolved (step s e) = resolved s"
  by (cases e) (auto simp: settle_def split: if_splits)

lemma run_first_terminal:
  "\<not> settled s \<Longrightarrow>
     resolved (run s es) = resolved s @ (case first_terminal s es of None \<Rightarrow> [] | Some r \<Rightarrow> [r])"
proof (induction es arbitrary: s)
  case Nil
  then show ?case by (simp add: run_def)
next
  case (Cons e es)
  show ?case
  proof (cases "terminal_outcome s e")
    case None
    with Cons.prems have "\<not> settled (step s e)" and "resolved (step s e) = resolved s"
      using step_not_terminal by blast+
    with Cons.IH [of "step s e"] None show ?thesis by (simp add: run_def)
  next
    case (Some r)
    with Cons.prems have "settled (step s e)" and "resolved (step s e) = resolved s @ [r]"
      using step_terminal by blast+
    with run_settled [of "step s e" es] Some show ?thesis by (simp add: run_def)
  qed
qed

lemma connecting_resolved:
  "resolved (run (connecting timeout) evs)
     = (case first_terminal (connecting timeout) evs of None \<Rightarrow> [] | Some r \<Rightarrow> [r])"
  using run_first_terminal [of "connecting timeout" evs] by (simp add: connecting_def)

text \<open>
  C1. Whatever events reach one \<^verbatim>\<open>executeCommand\<close> call for a registered server,
  \<^verbatim>\<open>resolve\<close> is called at most once, and it is called exactly when a terminal event
  occurs, with the value of the first one: the output, code and signal of the stream
  that closed, or \<^verbatim>\<open>{success: false, sshDown: true}\<close> for a connection error, an
  \<^verbatim>\<open>exec\<close> error or the timeout. The promise is fulfilled with that value, and
  stays pending when no terminal event occurs.
\<close>

theorem executeCommand_resolves_exactly_once:
  assumes "map_of (config ops) serverName = Some serverConfig"
  shows "length (resolved (run (connecting timeout) evs)) \<le> 1
     \<and> resolved (run (connecting timeout) evs)
         = (case first_terminal (connecting timeout) evs of None \<Rightarrow> [] | Some r \<Rightarrow> [r])
     \<and> fst (executeCommand ops serverName command timeout (Delivers evs))
         = (case first_terminal (connecting timeout) evs of
              None \<Rightarrow> Pending
            | Some r \<Rightarrow> Fulfilled r)"
proof -
  have eq: "resolved (run (connecting timeout) evs)
      = (case first_terminal (connecting timeout) evs of None \<Rightarrow> [] | Some r \<Rightarrow> [r])"
    by (rule connecting_resolved)
  then have "length (resolved (run (connecting timeout) evs)) \<le> 1"
    by (simp split: option.splits)
  moreover have "fst (executeCommand ops serverName command timeout (Delivers evs))
         = (case first_terminal (connecting timeout) evs of
              None \<Rightarrow> Pending
            | Some r \<Rightarrow> Fulfilled r)"
    using assms eq by (simp add: executeCommand_def config_lookup_def split: option.splits)
  ultimately show ?thesis using eq by simp
qed

theorem executeCommand_resolves_exactly_once_witness:
  "map_of (config sample_ops) ''alpha'' = Some sample_server
   \<and> resolved (run (connecting 500)
        [Ready, ExecStream, StreamData 0 ''ab'', StderrData 0 ''c'',
         StreamClose 0 (Some 0) None, ConnError, StreamClose 0 (Some 1) None])
       = [CommandOk ''abc'' (Some 0) None]
   \<and> fst (executeCommand sample_ops ''alpha'' ''ls'' 500
        (Delivers [Ready, ExecStream, StreamData 0 ''ab'', StderrData 0 ''c'',
           StreamClose 0 (Some 0) None, ConnError, StreamClose 0 (Some 1) None]))
       = Fulfilled (CommandOk ''abc'' (Some 0) None)"
  using executeCommand_resolves_exactly_once
    [where ops = sample_ops and serverName = "''alpha''" and serverConfig = sample_server
       and timeout = 500 and command = "''ls''"
       and evs = "[Ready, ExecStream, StreamData 0 ''ab'', StderrData 0 ''c'',
         StreamClose 0 (Some 0) None, ConnError, StreamClose 0 (Some 1) None]"]
  by (simp add: sample_ops_def connecting_def cleanup_def settle_def)

section \<open>The timeout\<close>

lemma timer_cleanup [simp]: "\<not> timer (cleanup s)"
  by (simp add: cleanup_def)

lemma timer_settle [simp]: "timer (settle r s) = timer s"
  by (simp add: settle_def)

lemma step_timer_off: "\<not> timer s \<Longrightarrow> \<not> timer (step s e)"
  by (cases e) (simp_all add: cleanup_def)

lemma run_timer_off: "\<not> timer s \<Longrightarrow> \<not> timer (run s es)"
  by (induction es arbitrary: s) (simp_all add: run_def step_timer_off)

lemma run_append: "run s (xs @ ys) = run (run s xs) ys"
  by (simp add: run_def)

lemma run_ready_timer_off: "Ready \<in> set es \<Longrightarrow> \<not> timer (run s es)"
proof -
  assume "Ready \<in> set es"
  then obtain xs ys where "es = xs @ Ready # ys"
    by (auto simp: in_set_conv_decomp)
  moreover have "\<not> timer (step (run s xs) Ready)" by simp
  ultimately show ?thesis
    using run_timer_off [of "step (run s xs) Ready" ys] by (simp add: run_append run_def)
qed

lemma step_timer_inv: "timer_inv s \<Longrightarrow> timer_inv (step s e)"
  by (cases e) (auto simp: timer_inv_def cleanup_def settle_def)

lemma run_timer_inv: "timer_inv s \<Longrightarrow> timer_inv (run s es)"
  by (induction es arbitrary: s) (simp_all add: run_def step_timer_inv)

lemma step_idle:
  "e \<noteq> Ready \<Longrightarrow> e \<noteq> ConnError \<Longrightarrow> e \<noteq> TimeoutElapsed \<Longrightarrow>
     exec_pending s = 0 \<Longrightarrow> streams s = [] \<Longrightarrow> step s e = s"
  by (cases e) simp_all

lemma run_idle:
  "Ready \<notin> set es \<Longrightarrow> ConnError \<notin> set es \<Longrightarrow> TimeoutElapsed \<notin> set es \<Longrightarrow>
     exec_pending s = 0 \<Longrightarrow> streams s = [] \<Longrightarrow> run s es = s"
proof (induction es)
  case Nil
  then show ?case by (simp add: run_def)
next
  case (Cons e es)
  then have "step s e = s" by (intro step_idle) auto
  with Cons show ?case by (simp add: run_def)
qed

text \<open>
  C2, as the code has it. The timer bounds the opening of the connection only. No
  timer is left armed once the call has resolved. With a positive timeout, when the
  delay passes before \<^verbatim>\<open>ready\<close> and before any connection error, the connection is
  destroyed, the call resolves with \<^verbatim>\<open>{success: false, sshDown: true}\<close> and the timer
  is cleared. Once \<^verbatim>\<open>ready\<close> has been handled the timer is cleared, and the delay
  passing while the command still runs changes nothing.
\<close>

theorem timeout_covers_connection_phase:
  "(settled (run (connecting timeout) evs) \<longrightarrow> \<not> timer (run (connecting timeout) evs))
   \<and> (timeout > 0 \<and> Ready \<notin> set evs \<and> ConnError \<notin> set evs \<and> TimeoutElapsed \<notin> set evs \<longrightarrow>
        conn_destroyed (step (run (connecting timeout) evs) TimeoutElapsed)
        \<and> resolved (step (run (connecting timeout) evs) TimeoutElapsed) = [SshDown]
        \<and> \<not> timer (step (run (connecting timeout) evs) TimeoutElapsed))
   \<and> (Ready \<in> set evs \<longrightarrow>
        step (run (connecting timeout) evs) TimeoutElapsed = run (connecting timeout) evs)"
proof -
  have "timer_inv (connecting timeout)"
    by (simp add: timer_inv_def connecting_def)
  then have "timer_inv (run (connecting timeout) evs)"
    by (rule run_timer_inv)
  then have a: "settled (run (connecting timeout) evs) \<longrightarrow> \<not> timer (run (connecting timeout) evs)"
    by (auto simp: timer_inv_def)
  have b: "conn_destroyed (step (run (connecting timeout) evs) TimeoutElapsed)
        \<and> resolved (step (run (connecting timeout) evs) TimeoutElapsed) = [SshDown]
        \<and> \<not> timer (step (run (connecting timeout) evs) TimeoutElapsed)"
    if "timeout > 0" "Ready \<notin> set evs" "ConnError \<notin> set evs" "TimeoutElapsed \<notin> set evs"
  proof -
    have "run (connecting timeout) evs = connecting timeout"
      using that by (intro run_idle) (simp_all add: connecting_def)
    then show ?thesis
      using that(1) by (simp add: connecting_def settle_def cleanup_def)
  qed
  have c: "step (run (connecting timeout) evs) TimeoutElapsed = run (connecting timeout) evs"
    if "Ready \<in> set evs"
    using run_ready_timer_off [OF that, of "connecting timeout"] by simp
  from a b c show ?thesis by blast
qed

theorem timeout_covers_connection_phase_witness:
  "settled (run (connecting 100) [ConnError]) \<and> \<not> timer (run (connecting 100) [ConnError])
   \<and> (100::int) > 0 \<and> Ready \<notin> set [StreamData 0 ''x'']
   \<and> conn_destroyed (step (run (connecting 100) [StreamData 0 ''x'']) TimeoutElapsed)
   \<and> resolved (step (run (connecting 100) [StreamData 0 ''x'']) TimeoutElapsed) = [SshDown]
   \<and> Ready \<in> set [Ready, ExecStream]
   \<and> step (run (connecting 100) [Ready, ExecStream]) TimeoutElapsed
       = run (connecting 100) [Ready, ExecStream]"
  using timeout_covers_connection_phase [of 100 "[ConnError]"]
    timeout_covers_connection_phase [of 100 "[StreamData 0 ''x'']"]
    timeout_covers_connection_phase [of 100 "[Ready, ExecStream]"]
  by (simp add: run_def connecting_def cleanup_def settle_def)

text \<open>
  C2 as stated fails once the connection is ready: with a timeout of 100 ms and a
  command still running, the delay passes without any effect, the connection is not
  destroyed, and the call later resolves with the success of the command.
\<close>

theorem timeout_after_ready_counterexample:
  "\<not> settled (run (connecting 100) [Ready, ExecStream])
   \<and> resolved (run (connecting 100) [Ready, ExecStream, TimeoutElapsed]) = []
   \<and> \<not> conn_destroyed (run (connecting 100) [Ready, ExecStream, TimeoutElapsed])
   \<and> fst (executeCommand sample_ops ''alpha'' ''sleep 10'' 100
        (Delivers [Ready, ExecStream, TimeoutElapsed, StreamClose 0 (Some 0) None]))
       = Fulfilled (CommandOk [] (Some 0) None)"
  by (simp add: executeCommand_def config_lookup_def sample_ops_def run_def connecting_def
      cleanup_def settle_def)

section \<open>The session-listing parser\<close>

lemma not_digit_dot: "\<not> is_digit CHR ''.''"
  by (simp add: is_digit_def)

lemma match_here_token:
  assumes "match_here l = Some nm"
  shows "\<exists>ds post. l = ds @ ''.'' @ nm @ post \<and> ds \<noteq> [] \<and> list_all is_digit ds
           \<and> nm \<noteq> [] \<and> list_all (\<lambda>x. \<not> is_space x) nm"
proof -
  from assms have ds: "takeWhile is_digit l \<noteq> []"
    by (auto simp: match_here_def split: if_splits)
  with assms obtain r where r: "dropWhile is_digit l = CHR ''.'' # r"
    and nm: "nm = takeWhile (\<lambda>x. \<not> is_space x) r" and ne: "nm \<noteq> []"
    by (auto simp: match_here_def split: if_splits list.splits)
  have "l = takeWhile is_digit l @ dropWhile is_digit l" by simp
  also have "\<dots> = takeWhile is_digit l @ ''.'' @ nm @ dropWhile (\<lambda>x. \<not> is_space x) r"
    using r nm by simp
  finally have "l = takeWhile is_digit l @ ''.'' @ nm @ dropWhile (\<lambda>x. \<not> is_space x) r" .
  moreover have "list_all is_digit (takeWhile is_digit l)"
    by (auto simp: list_all_iff dest: set_takeWhileD)
  moreover have "list_all (\<lambda>x. \<not> is_space x) nm"
    unfolding nm by (auto simp: list_all_iff dest: set_takeWhileD)
  ultimately show ?thesis using ds ne by blast
qed

lemma has_token_Cons: "has_token l \<Longrightarrow> has_token (c # l)"
proof -
  assume "has_token l"
  then obtain pre ds nm post where "l = pre @ ds @ ''.'' @ nm @ post" "ds \<noteq> []"
    "list_all is_digit ds" "nm \<noteq> []" "list_all (\<lambda>x. \<not> is_space x) nm"
    unfolding has_token_def by blast
  then have "c # l = (c # pre) @ ds @ ''.'' @ nm @ post \<and> ds \<noteq> [] \<and> list_all is_digit ds
      \<and> nm \<noteq> [] \<and> list_all (\<lambda>x. \<not> is_space x) nm"
    by simp
  then show ?thesis unfolding has_token_def by blast
qed

lemma line_match_token: "line_match l = Some nm \<Longrightarrow> has_token l"
proof (induction l)
  case Nil
  then show ?case by simp
next
  case (Cons c cs)
  show ?case
  proof (cases "match_here (c # cs)")
    case None
    with Cons.prems have "line_match cs = Some nm" by simp
    then have "has_token cs" by (rule Cons.IH)
    then show ?thesis by (rule has_token_Cons)
  next
    case (Some a)
    from match_here_token [OF Some] obtain ds post where
      "c # cs = [] @ ds @ ''.'' @ a @ post" "ds \<noteq> []" "list_all is_digit ds" "a \<noteq> []"
      "list_all (\<lambda>x. \<not> is_space x) a"
      by auto
    then show ?thesis unfolding has_token_def by blast
  qed
qed

lemma token_match_here:
  assumes "ds \<noteq> []" "list_all is_digit ds" "nm \<noteq> []" "list_all (\<lambda>x. \<not> is_space x) nm"
  shows "match_here (ds @ ''.'' @ nm @ post) \<noteq> None"
proof -
  have tw: "takeWhile is_digit (ds @ ''.'' @ nm @ post) = ds"
    using assms(2) by (simp add: takeWhile_append2 list_all_iff not_digit_dot)
  have dw: "dropWhile is_digit (ds @ ''.'' @ nm @ post) = CHR ''.'' # nm @ post"
    using assms(2) by (simp add: dropWhile_append2 list_all_iff not_digit_dot)
  have "takeWhile (\<lambda>x. \<not> is_space x) (nm @ post) = nm @ takeWhile (\<lambda>x. \<not> is_space x) post"
    using assms(4) by (simp add: takeWhile_append2 list_all_iff)
  with assms(3) have "takeWhile (\<lambda>x. \<not> is_space x) (nm @ post) \<noteq> []" by simp
  with tw dw assms(1) show ?thesis by (simp add: match_here_def)
qed

lemma token_line_match:
  assumes "ds \<noteq> []" "list_all is_digit ds" "nm \<noteq> []" "list_all (\<lambda>x. \<not> is_space x) nm"
  shows "line_match (pre @ ds @ ''.'' @ nm @ post) \<noteq> None"
proof (induction pre)
  case Nil
  from assms(1) obtain d ds' where ds: "ds = d # ds'" by (cases ds) auto
  from token_match_here [OF assms, of post] obtain a where
    "match_here (ds @ ''.'' @ nm @ post) = Some a" by auto
  then show ?case using ds by simp
next
  case (Cons c pre)
  then show ?case by (simp split: option.splits)
qed

lemma line_match_None_iff: "line_match l = None \<longleftrightarrow> \<not> has_token l"
proof
  assume "line_match l = None"
  show "\<not> has_token l"
  proof
    assume "has_token l"
    then obtain pre ds nm post where "l = pre @ ds @ ''.'' @ nm @ post" "ds \<noteq> []"
      "list_all is_digit ds" "nm \<noteq> []" "list_all (\<lambda>x. \<not> is_space x) nm"
      unfolding has_token_def by blast
    with token_line_match [of ds nm pre post] \<open>line_match l = None\<close> show False by simp
  qed
next
  assume "\<not> has_token l"
  then show "line_match l = None"
    using line_match_token [of l] by (cases "line_match l") auto
qed

lemma collect_sessions_append:
  "collect_sessions acc (xs @ ys) = collect_sessions (collect_sessions acc xs) ys"
  by (induction xs arbitrary: acc) (simp_all split: option.splits)

lemma split_lines_no_feed: "CHR 0x0A \<notin> set l \<Longrightarrow> split_lines l = [l]"
  by (induction l) auto

lemma split_lines_feed:
  "CHR 0x0A \<notin> set l \<Longrightarrow> split_lines (l @ CHR 0x0A # rest) = l # split_lines rest"
  by (induction l) auto

lemma split_join_lines:
  "ls \<noteq> [] \<Longrightarrow> \<forall>x \<in> set ls. CHR 0x0A \<notin> set x \<Longrightarrow> split_lines (join_lines ls) = ls"
proof (induction ls rule: join_lines.induct)
  case 1
  then show ?case by simp
next
  case (2 l)
  then show ?case by (simp add: split_lines_no_feed)
next
  case (3 l l' ls)
  then show ?case by (simp add: split_lines_feed)
qed

lemma collect_sessions_map_filter:
  "collect_sessions acc ls = acc @ List.map_filter line_match ls"
  by (induction ls arbitrary: acc) (simp_all add: List.map_filter_simps split: option.splits)

lemma parse_join_lines:
  assumes "ls \<noteq> []" and "\<forall>x \<in> set ls. CHR 0x0A \<notin> set x"
  shows "parse_sessions (join_lines ls) = List.map_filter line_match ls"
  using assms by (simp add: parse_sessions_def split_join_lines collect_sessions_map_filter)

lemma map_filter_append:
  "List.map_filter f (xs @ ys) = List.map_filter f xs @ List.map_filter f ys"
  by (simp add: List.map_filter_def)

text \<open>
  C8. The line \<^verbatim>\<open>1234.worker_a<TAB>(Detached)\<close> yields the one session name
  \<^verbatim>\<open>worker_a\<close>; the header \<^verbatim>\<open>There are screens on:\<close> yields none. A line has no
  match exactly when it holds no digits-dot-name token. Applied to a listing of
  several lines, the parser yields the match of every line that has one, in the
  order of the lines, so that a line without token contributes nothing: the result
  is that of the listing without the line. The parser is a total function, so no
  line makes it fail.
\<close>

theorem session_listing_parser:
  "parse_sessions (''1234.worker_a'' @ [CHR 0x09] @ ''(Detached)'') = [''worker_a'']
   \<and> parse_sessions ''There are screens on:'' = []
   \<and> (line_match l = None \<longleftrightarrow> \<not> has_token l)
   \<and> (ls \<noteq> [] \<and> (\<forall>x \<in> set ls. CHR 0x0A \<notin> set x) \<longrightarrow>
        parse_sessions (join_lines ls) = List.map_filter line_match ls)
   \<and> (\<not> has_token l \<and> (\<forall>x \<in> set (before @ l # after). CHR 0x0A \<notin> set x) \<longrightarrow>
        parse_sessions (join_lines (before @ l # after))
          = List.map_filter line_match (before @ after))"
proof -
  have "parse_sessions (''1234.worker_a'' @ [CHR 0x09] @ ''(Detached)'') = [''worker_a'']"
    by (simp add: parse_sessions_def match_here_def is_digit_def is_space_def)
  moreover have "parse_sessions ''There are screens on:'' = []"
    by (simp add: parse_sessions_def match_here_def is_digit_def is_space_def)
  moreover have "parse_sessions (join_lines ls) = List.map_filter line_match ls"
    if "ls \<noteq> []" "\<forall>x \<in> set ls. CHR 0x0A \<notin> set x"
    using that by (rule parse_join_lines)
  moreover have "parse_sessions (join_lines (before @ l # after))
      = List.map_filter line_match (before @ after)"
    if "\<not> has_token l" "\<forall>x \<in> set (before @ l # after). CHR 0x0A \<notin> set x"
  proof -
    from that(1) have "line_match l = None" by (simp add: line_match_None_iff)
    then have "List.map_filter line_match (before @ l # after)
        = List.map_filter line_match (before @ after)"
      by (simp add: map_filter_append List.map_filter_simps)
    moreover have "parse_sessions (join_lines (before @ l # after))
        = List.map_filter line_match (before @ l # after)"
      using that(2) by (intro parse_join_lines) simp_all
    ultimately show ?thesis by simp
  qed
  ultimately show ?thesis using line_match_None_iff by blast
qed

theorem session_listing_parser_witness:
  "\<not> has_token ''There are screens on:''
   \<and> parse_sessions
        (''There are screens on:'' @ [CHR 0x0A, CHR 0x09] @ ''1234.worker_a'' @ [CHR 0x09]
         @ ''(Detached)'' @ [CHR 0x0A, CHR 0x09] @ ''5678.worker_b'' @ [CHR 0x09]
         @ ''(Attached)'' @ [CHR 0x0A] @ ''2 Sockets in /run/screen/S-afl.'' @ [CHR 0x0A])
       = [''worker_a'', ''worker_b'']"
  using session_listing_parser
    [where l = "''There are screens on:''" and before = "[]"
       and after = "[CHR 0x09 # ''1234.worker_a'' @ [CHR 0x09] @ ''(Detached)'',
                     CHR 0x09 # ''5678.worker_b'' @ [CHR 0x09] @ ''(Attached)'',
                     ''2 Sockets in /run/screen/S-afl.'', []]"
       and ls = "[''There are screens on:'',
                  CHR 0x09 # ''1234.worker_a'' @ [CHR 0x09] @ ''(Detached)'',
                  CHR 0x09 # ''5678.worker_b'' @ [CHR 0x09] @ ''(Attached)'',
                  ''2 Sockets in /run/screen/S-afl.'', []]"]
  by (simp add: match_here_def is_digit_def is_space_def List.map_filter_simps)

section \<open>Lifecycle operations and unknown servers\<close>

lemma terminal_outcome_shape: "terminal_outcome s e = Some r \<Longrightarrow> command_result r"
  by (cases e) (auto simp: command_result_def split: if_splits)

lemma first_terminal_shape: "first_terminal s es = Some r \<Longrightarrow> command_result r"
  by (induction es arbitrary: s) (auto split: option.splits dest: terminal_outcome_shape)

lemma config_lookup_own: "map_of cfg name = Some c \<Longrightarrow> config_lookup cfg name = Some (Own c)"
  by (simp add: config_lookup_def)

lemma executeCommand_own:
  assumes "map_of (config ops) serverName = Some serverConfig"
  shows "executeCommand ops serverName command timeout tr
     = ((case tr of
           ConnectThrows \<Rightarrow> Rejected ConnectFailure
         | Delivers evs \<Rightarrow>
             (case first_terminal (connecting timeout) evs of
                None \<Rightarrow> Pending
              | Some r \<Rightarrow> Fulfilled r)),
        ops\<lparr>connections := connections ops @ [(Some (host serverConfig), command)]\<rparr>)"
  using assms
  by (simp add: executeCommand_def config_lookup_own connecting_resolved
      split: option.splits transport.splits)

lemma executeCommand_Fulfilled:
  assumes "executeCommand ops serverName command timeout tr = (Fulfilled r, ops')"
  shows "command_result r"
proof (cases "config_lookup (config ops) serverName")
  case None
  with assms show ?thesis by (simp add: executeCommand_def command_result_def)
next
  case (Some e)
  with assms obtain evs where "tr = Delivers evs"
    and "resolved (run (connecting timeout) evs) \<noteq> []"
    and "r = hd (resolved (run (connecting timeout) evs))"
    by (auto simp: executeCommand_def split: transport.splits list.splits)
  then have "first_terminal (connecting timeout) evs = Some r"
    by (simp add: connecting_resolved split: option.splits)
  then show ?thesis by (rule first_terminal_shape)
qed

text \<open>
  C4. Whatever \<^verbatim>\<open>stopServer\<close> answers: when its result is a failure without
  \<^verbatim>\<open>sshDown\<close>, \<^verbatim>\<open>restartServer\<close> returns that result in the state the stop left,
  so \<^verbatim>\<open>startServer\<close> is not called; when the stop succeeded or failed with
  \<^verbatim>\<open>sshDown\<close>, the restart is the call of \<^verbatim>\<open>startServer\<close> in that state.
\<close>

theorem restart_aborts_only_on_logical_failure:
  assumes "stop ops = (Fulfilled stopResult, ops')"
  shows "(\<not> success stopResult \<and> \<not> sshDown stopResult \<longrightarrow>
            restartServer_body stop (\<lambda>o1. startServer pjoin o1 serverName tr) ops
              = (Fulfilled stopResult, ops'))
       \<and> (success stopResult \<or> sshDown stopResult \<longrightarrow>
            restartServer_body stop (\<lambda>o1. startServer pjoin o1 serverName tr) ops
              = startServer pjoin ops' serverName tr)"
  using assms by (auto simp: restartServer_body_def)

theorem restart_aborts_only_on_logical_failure_witness:
  "restartServer_body (\<lambda>o1. (Fulfilled (Failure ''No screen session found.''), o1))
      (\<lambda>o1. startServer posix_join o1 ''alpha'' (Delivers [ConnError])) sample_ops
     = (Fulfilled (Failure ''No screen session found.''), sample_ops)
   \<and> restartServer_body (\<lambda>o1. (Fulfilled SshDown, o1))
      (\<lambda>o1. startServer posix_join o1 ''alpha'' (Delivers [ConnError])) sample_ops
     = startServer posix_join sample_ops ''alpha'' (Delivers [ConnError])
   \<and> connections (snd (startServer posix_join sample_ops ''alpha'' (Delivers [ConnError])))
       \<noteq> []"
  using restart_aborts_only_on_logical_failure
    [where stop = "\<lambda>o1. (Fulfilled (Failure ''No screen session found.''), o1)"
       and ops = sample_ops and ops' = sample_ops
       and stopResult = "Failure ''No screen session found.''"
       and pjoin = posix_join and serverName = "''alpha''" and tr = "Delivers [ConnError]"]
    restart_aborts_only_on_logical_failure
    [where stop = "\<lambda>o1. (Fulfilled SshDown, o1)"
       and ops = sample_ops and ops' = sample_ops and stopResult = SshDown
       and pjoin = posix_join and serverName = "''alpha''" and tr = "Delivers [ConnError]"]
  by (simp add: startServer_def executeCommand_def config_lookup_def sample_ops_def
      sample_server_def)

text \<open>
  C10, as the code has it. For a registered server, whenever the promise of
  \<^verbatim>\<open>stopServer\<close> is fulfilled, its value is what \<^verbatim>\<open>executeCommand\<close> resolved with:
  \<^verbatim>\<open>{success: true, ...}\<close> or \<^verbatim>\<open>{success: false, sshDown: true}\<close>, never a failure
  without \<^verbatim>\<open>sshDown\<close>; the abort branch of \<^verbatim>\<open>restartServer\<close> is then not taken and
  the restart is the call of \<^verbatim>\<open>startServer\<close> in the state the stop left. While the
  stop stays pending, the restart stays pending in the state the stop left, without
  any call of \<^verbatim>\<open>startServer\<close>.
\<close>

theorem stop_fails_only_with_sshDown:
  assumes "map_of (config ops) serverName = Some serverConfig"
  shows "(\<forall>stopResult ops'. stopServer ops serverName tr_stop = (Fulfilled stopResult, ops') \<longrightarrow>
            (stopResult = SshDown \<or> (\<exists>out code signal. stopResult = CommandOk out code signal))
            \<and> (success stopResult \<or> sshDown stopResult)
            \<and> restartServer pjoin ops serverName tr_stop tr_start
                = startServer pjoin ops' serverName tr_start)
       \<and> (fst (stopServer ops serverName tr_stop) = Pending \<longrightarrow>
            restartServer pjoin ops serverName tr_stop tr_start
              = stopServer ops serverName tr_stop)"
proof -
  let ?cmd = "''screen -X -S '' @ screen_name serverConfig @ '' quit''"
  have stop: "stopServer ops serverName tr_stop = executeCommand ops serverName ?cmd 0 tr_stop"
    using assms by (simp add: stopServer_def config_lookup_own)
  have a: "(stopResult = SshDown \<or> (\<exists>out code signal. stopResult = CommandOk out code signal))
            \<and> (success stopResult \<or> sshDown stopResult)
            \<and> restartServer pjoin ops serverName tr_stop tr_start
                = startServer pjoin ops' serverName tr_start"
    if "stopServer ops serverName tr_stop = (Fulfilled stopResult, ops')" for stopResult ops'
  proof -
    from that stop have "command_result stopResult"
      using executeCommand_Fulfilled [of ops serverName ?cmd 0 tr_stop stopResult ops'] by simp
    then have shape: "(stopResult = SshDown
          \<or> (\<exists>out code signal. stopResult = CommandOk out code signal))
        \<and> (success stopResult \<or> sshDown stopResult)"
      by (cases stopResult) (simp_all add: command_result_def)
    with that have "restartServer pjoin ops serverName tr_stop tr_start
        = startServer pjoin ops' serverName tr_start"
      by (auto simp: restartServer_def restartServer_body_def)
    with shape show ?thesis by blast
  qed
  have b: "restartServer pjoin ops serverName tr_stop tr_start = stopServer ops serverName tr_stop"
    if "fst (stopServer ops serverName tr_stop) = Pending"
    using that by (cases "stopServer ops serverName tr_stop")
      (simp add: restartServer_def restartServer_body_def)
  from a b show ?thesis by blast
qed

theorem stop_fails_only_with_sshDown_witness:
  "map_of (config sample_ops) ''alpha'' = Some sample_server
   \<and> stopServer sample_ops ''alpha'' (Delivers [Ready, ExecStream, StreamClose 0 (Some 1) None])
       = (Fulfilled (CommandOk [] (Some 1) None),
          sample_ops\<lparr>connections := [(Some ''node1'', ''screen -X -S worker_a quit'')]\<rparr>)
   \<and> restartServer posix_join sample_ops ''alpha''
        (Delivers [Ready, ExecStream, StreamClose 0 (Some 1) None]) (Delivers [ConnError])
       = startServer posix_join
           (sample_ops\<lparr>connections := [(Some ''node1'', ''screen -X -S worker_a quit'')]\<rparr>)
           ''alpha'' (Delivers [ConnError])
   \<and> fst (stopServer sample_ops ''alpha'' (Delivers [Ready])) = Pending
   \<and> restartServer posix_join sample_ops ''alpha'' (Delivers [Ready]) (Delivers [ConnError])
       = stopServer sample_ops ''alpha'' (Delivers [Ready])"
proof -
  have reg: "map_of (config sample_ops) ''alpha'' = Some sample_server"
    by (simp add: sample_ops_def)
  have stop: "stopServer sample_ops ''alpha''
        (Delivers [Ready, ExecStream, StreamClose 0 (Some 1) None])
       = (Fulfilled (CommandOk [] (Some 1) None),
          sample_ops\<lparr>connections := [(Some ''node1'', ''screen -X -S worker_a quit'')]\<rparr>)"
    by (simp add: stopServer_def executeCommand_def config_lookup_def sample_ops_def
        sample_server_def run_def connecting_def cleanup_def settle_def)
  have pend: "fst (stopServer sample_ops ''alpha'' (Delivers [Ready])) = Pending"
    by (simp add: stopServer_def executeCommand_def config_lookup_def sample_ops_def
        sample_server_def run_def connecting_def cleanup_def)
  from stop_fails_only_with_sshDown [OF reg,
      of "Delivers [Ready, ExecStream, StreamClose 0 (Some 1) None]" posix_join
        "Delivers [ConnError]"] stop
  have "restartServer posix_join sample_ops ''alpha''
        (Delivers [Ready, ExecStream, StreamClose 0 (Some 1) None]) (Delivers [ConnError])
       = startServer posix_join
           (sample_ops\<lparr>connections := [(Some ''node1'', ''screen -X -S worker_a quit'')]\<rparr>)
           ''alpha'' (Delivers [ConnError])"
    by simp
  moreover from stop_fails_only_with_sshDown [OF reg, of "Delivers [Ready]" posix_join
      "Delivers [ConnError]"] pend
  have "restartServer posix_join sample_ops ''alpha'' (Delivers [Ready]) (Delivers [ConnError])
       = stopServer sample_ops ''alpha'' (Delivers [Ready])"
    by simp
  ultimately show ?thesis using reg stop pend by simp
qed

text \<open>
  C10 as stated fails when the stop does not settle: \<^verbatim>\<open>stopServer\<close> sets no timeout,
  so with a connection that is ready and a command that never ends the restart stays
  pending, and the only connection ever opened is the one of the stop. It also fails
  when \<^verbatim>\<open>conn.connect\<close> throws: the stop is rejected, with no result at all, and so
  is the restart.
\<close>

theorem restart_without_start_counterexample:
  "restartServer posix_join sample_ops ''alpha'' (Delivers [Ready, ExecStream])
        (Delivers [ConnError])
     = (Pending,
        sample_ops\<lparr>connections := [(Some ''node1'', ''screen -X -S worker_a quit'')]\<rparr>)
   \<and> restartServer posix_join sample_ops ''alpha'' ConnectThrows (Delivers [ConnError])
     = (Rejected ConnectFailure,
        sample_ops\<lparr>connections := [(Some ''node1'', ''screen -X -S worker_a quit'')]\<rparr>)"
  by (simp add: restartServer_def restartServer_body_def stopServer_def executeCommand_def
      config_lookup_def sample_ops_def sample_server_def run_def connecting_def cleanup_def)

lemma find_host_None:
  assumes "\<forall>(name, c) \<in> set cfg. host c \<noteq> h"
  shows "batch_server cfg h = None"
proof -
  have "\<not> (case map_of cfg name of None \<Rightarrow> False | Some c \<Rightarrow> host c = h)" for name
  proof (cases "map_of cfg name")
    case None
    then show ?thesis by simp
  next
    case (Some c)
    then have "(name, c) \<in> set cfg" by (rule map_of_SomeD)
    with assms Some show ?thesis by auto
  qed
  then show ?thesis by (simp add: batch_server_def find_None_iff)
qed

text \<open>
  C3, as the code has it. When \<^verbatim>\<open>this.config[serverName]\<close> is \<^verbatim>\<open>undefined\<close> (no
  own entry, and no member inherited from \<^verbatim>\<open>Object.prototype\<close> under that name),
  \<^verbatim>\<open>executeCommand\<close> resolves at once with \<^verbatim>\<open>{success: false, sshDown: true}\<close>, and
  \<^verbatim>\<open>getBatchServerStatus\<close> with a host that no entry has returns
  \<^verbatim>\<open>{success: false, error: 'No server configured for host ...'}\<close>; both leave the
  state as it was: \<^verbatim>\<open>conn.connect\<close> is not called and the cache is untouched.
\<close>

theorem unknown_server_negative_results:
  "(config_lookup (config ops) serverName = None \<longrightarrow>
      executeCommand ops serverName command timeout tr = (Fulfilled SshDown, ops))
   \<and> ((\<forall>(name, c) \<in> set (config ops). host c \<noteq> h) \<longrightarrow>
      getBatchServerStatus ops h now tr
        = (Fulfilled (Failure (''No server configured for host '' @ h)), ops))"
  by (auto simp: executeCommand_def getBatchServerStatus_def find_host_None)

theorem unknown_server_negative_results_witness:
  "config_lookup (config sample_ops) ''ghost'' = None
   \<and> executeCommand sample_ops ''ghost'' ''ls'' 0 (Delivers [Ready])
       = (Fulfilled SshDown, sample_ops)
   \<and> map (\<lambda>(name, c). host c) (config sample_ops) = [''node1'']
   \<and> getBatchServerStatus sample_ops ''nowhere'' 0 (Delivers [Ready])
       = (Fulfilled (Failure ''No server configured for host nowhere''), sample_ops)"
  using unknown_server_negative_results
    [where ops = sample_ops and serverName = "''ghost''" and command = "''ls''" and timeout = 0
       and tr = "Delivers [Ready]" and h = "''nowhere''" and now = 0]
  by (simp add: config_lookup_def object_prototype_names_def sample_ops_def sample_server_def)

text \<open>
  C3 as stated fails on the registry without a server \<^verbatim>\<open>ghost\<close>: \<^verbatim>\<open>executeCommand\<close>
  answers \<^verbatim>\<open>sshDown\<close>, which is no configuration error with a message, and the
  operations that read a field of the missing entry reject with a \<^verbatim>\<open>TypeError\<close>.
  Under the name \<^verbatim>\<open>constructor\<close>, which the registry inherits, \<^verbatim>\<open>executeCommand\<close>
  passes its guard and calls \<^verbatim>\<open>conn.connect\<close> without host and user name; when that
  throws, the call rejects.
\<close>

theorem unknown_server_counterexample:
  "\<not> config_error (fst (executeCommand sample_ops ''ghost'' ''ls'' 0 (Delivers [])))
   \<and> fst (executeCommand sample_ops ''ghost'' ''ls'' 0 (Delivers [])) = Fulfilled SshDown
   \<and> fst (startServer posix_join sample_ops ''ghost'' (Delivers [])) = Rejected TypeError
   \<and> fst (stopServer sample_ops ''ghost'' (Delivers [])) = Rejected TypeError
   \<and> fst (restartServer posix_join sample_ops ''ghost'' (Delivers []) (Delivers []))
       = Rejected TypeError
   \<and> fst (getServerStatus sample_ops ''ghost'' 0 (Delivers [])) = Rejected TypeError
   \<and> fst (getServerLog posix_join sample_ops ''ghost'' 200 (Delivers [])) = Rejected TypeError
   \<and> fst (joinServer sample_ops ''ghost'' (Delivers [])) = Rejected TypeError
   \<and> map_of (config sample_ops) ''constructor'' = None
   \<and> executeCommand sample_ops ''constructor'' ''ls'' 0 ConnectThrows
       = (Rejected ConnectFailure, sample_ops\<lparr>connections := [(None, ''ls'')]\<rparr>)"
  by (simp add: config_error_def executeCommand_def startServer_def stopServer_def
      restartServer_def restartServer_body_def getServerStatus_def getServerLog_def
      joinServer_def config_lookup_def object_prototype_names_def sample_ops_def)

section \<open>The status cache\<close>

lemma executeCommand_frame:
  assumes "executeCommand ops serverName command timeout tr = (c, ops')"
  shows "config ops' = config ops \<and> screenSessionCache ops' = screenSessionCache ops
       \<and> length (connections ops') \<le> length (connections ops) + 1"
  using assms by (auto simp: executeCommand_def split: option.splits)

lemma batch_server_Some:
  assumes "batch_server cfg h = Some serverName"
  shows "\<exists>c. map_of cfg serverName = Some c \<and> host c = h"
  using assms by (auto simp: batch_server_def find_Some_iff split: option.splits)

lemma getBatchServerStatus_Sessions:
  assumes "getBatchServerStatus ops h now tr = (Fulfilled (Sessions h' ss), ops')"
  shows "h' = h \<and> config ops' = config ops
       \<and> screenSessionCache ops'
           = (screenSessionCache ops)(h \<mapsto> \<lparr>timestamp = now, sessions = ss\<rparr>)"
  using assms
  by (auto simp: getBatchServerStatus_def Let_def
      split: option.splits if_splits prod.splits completion.splits result.splits
      dest!: executeCommand_frame)

lemma getBatchServerStatus_frame:
  assumes "\<forall>ss. fst (getBatchServerStatus ops h now tr) \<noteq> Fulfilled (Sessions h ss)"
  shows "screenSessionCache (snd (getBatchServerStatus ops h now tr)) = screenSessionCache ops"
  using assms
  by (auto simp: getBatchServerStatus_def Let_def
      split: option.splits if_splits prod.splits completion.splits result.splits
      dest!: executeCommand_frame)

lemma getBatchServerStatus_transport_failure:
  assumes "batch_server (config ops) h = Some serverName" and "serverName \<noteq> []"
    and "first_terminal (connecting 500) evs = Some SshDown"
  shows "getBatchServerStatus ops h now (Delivers evs)
     = (Fulfilled (SshDownHost h),
        ops\<lparr>connections := connections ops @ [(Some h, ''screen -ls'')]\<rparr>)"
proof -
  from batch_server_Some [OF assms(1)] obtain c where
    "map_of (config ops) serverName = Some c" and "host c = h"
    by blast
  then have "executeCommand ops serverName ''screen -ls'' 500 (Delivers evs)
      = (Fulfilled SshDown, ops\<lparr>connections := connections ops @ [(Some h, ''screen -ls'')]\<rparr>)"
    using assms(3) by (simp add: executeCommand_own)
  with assms(1,2) show ?thesis by (simp add: getBatchServerStatus_def)
qed

lemma getServerStatus_hit:
  assumes "map_of (config ops) serverName = Some c"
    and "screenSessionCache ops (host c) = Some entry"
    and "now - timestamp entry < 5000"
  shows "getServerStatus ops serverName now tr
     = (Fulfilled (Status (screen_name c \<in> set (sessions entry))), ops)"
  using assms by (simp add: getServerStatus_def config_lookup_own)

text \<open>
  C6. When \<^verbatim>\<open>getBatchServerStatus(host)\<close> succeeds with a session list, the cache
  entry of the host holds exactly that list, stamped with the time the batch read the
  clock. A \<^verbatim>\<open>getServerStatus\<close> for a server on that host that starts less than
  5000 ms after the stamp, on the state the batch left, answers the membership of
  the server's session name in that same list and changes nothing.
\<close>

theorem batch_and_single_share_cache_entry:
  assumes "getBatchServerStatus ops h tb tr = (Fulfilled (Sessions h' ss), ops')"
    and "map_of (config ops) serverName = Some c"
    and "host c = h"
    and "now - tb < 5000"
  shows "screenSessionCache ops' h = Some \<lparr>timestamp = tb, sessions = ss\<rparr>
       \<and> getServerStatus ops' serverName now tr'
           = (Fulfilled (Status (screen_name c \<in> set ss)), ops')"
proof -
  from getBatchServerStatus_Sessions [OF assms(1)]
  have cfg: "config ops' = config ops"
    and cache: "screenSessionCache ops' h = Some \<lparr>timestamp = tb, sessions = ss\<rparr>"
    by simp_all
  from cfg assms(2) have "map_of (config ops') serverName = Some c" by simp
  moreover from cache assms(3)
  have "screenSessionCache ops' (host c) = Some \<lparr>timestamp = tb, sessions = ss\<rparr>" by simp
  ultimately have "getServerStatus ops' serverName now tr'
      = (Fulfilled (Status (screen_name c \<in> set (sessions \<lparr>timestamp = tb, sessions = ss\<rparr>))), ops')"
    using assms(4) by (intro getServerStatus_hit) simp_all
  with cache show ?thesis by simp
qed

theorem batch_and_single_share_cache_entry_witness:
  "getBatchServerStatus sample_ops ''node1'' 1000
       (Delivers [Ready, ExecStream, StreamData 0 ''1234.worker_a'', StreamClose 0 (Some 0) None])
     = (Fulfilled (Sessions ''node1'' [''worker_a'']),
        sample_ops\<lparr>connections := [(Some ''node1'', ''screen -ls'')],
          screenSessionCache := [''node1'' \<mapsto> \<lparr>timestamp = 1000, sessions = [''worker_a'']\<rparr>]\<rparr>)
   \<and> map_of (config sample_ops) ''alpha'' = Some sample_server
   \<and> host sample_server = ''node1''
   \<and> (5999::int) - 1000 < 5000
   \<and> getServerStatus
        (sample_ops\<lparr>connections := [(Some ''node1'', ''screen -ls'')],
          screenSessionCache := [''node1'' \<mapsto> \<lparr>timestamp = 1000, sessions = [''worker_a'']\<rparr>]\<rparr>)
        ''alpha'' 5999 (Delivers [ConnError])
     = (Fulfilled (Status True),
        sample_ops\<lparr>connections := [(Some ''node1'', ''screen -ls'')],
          screenSessionCache := [''node1'' \<mapsto> \<lparr>timestamp = 1000, sessions = [''worker_a'']\<rparr>]\<rparr>)"
proof -
  have batch: "getBatchServerStatus sample_ops ''node1'' 1000
       (Delivers [Ready, ExecStream, StreamData 0 ''1234.worker_a'', StreamClose 0 (Some 0) None])
     = (Fulfilled (Sessions ''node1'' [''worker_a'']),
        sample_ops\<lparr>connections := [(Some ''node1'', ''screen -ls'')],
          screenSessionCache := [''node1'' \<mapsto> \<lparr>timestamp = 1000, sessions = [''worker_a'']\<rparr>]\<rparr>)"
    by (simp add: getBatchServerStatus_def batch_server_def executeCommand_def
        config_lookup_def sample_ops_def sample_server_def
        run_def connecting_def cleanup_def settle_def parse_sessions_def match_here_def Let_def
        is_digit_def is_space_def)
  have reg: "map_of (config sample_ops) ''alpha'' = Some sample_server"
    by (simp add: sample_ops_def)
  have hst: "host sample_server = ''node1''"
    by (simp add: sample_server_def)
  have fresh: "(5999::int) - 1000 < 5000" by simp
  from batch_and_single_share_cache_entry [OF batch reg hst fresh, of "Delivers [ConnError]"]
    batch reg hst fresh
  show ?thesis by (simp add: sample_server_def)
qed

text \<open>
  C7, as the code has it. Whenever \<^verbatim>\<open>getBatchServerStatus(host)\<close> does not succeed,
  the cache is the one it started with, for every host. When no registry entry has
  the host, the call returns the configuration error and opens no connection. When a
  server is found and the first terminal event of its command is a failure (a
  connection error, an \<^verbatim>\<open>exec\<close> error, the timeout while connecting), the call
  returns \<^verbatim>\<open>{success: false, sshDown: true, host}\<close>.
\<close>

theorem failed_batch_leaves_cache:
  "((\<forall>(name, c) \<in> set (config ops). host c \<noteq> h) \<longrightarrow>
       getBatchServerStatus ops h now tr
         = (Fulfilled (Failure (''No server configured for host '' @ h)), ops))
   \<and> (batch_server (config ops) h = Some serverName \<and> serverName \<noteq> []
        \<and> first_terminal (connecting 500) evs = Some SshDown \<longrightarrow>
       getBatchServerStatus ops h now (Delivers evs)
         = (Fulfilled (SshDownHost h),
            ops\<lparr>connections := connections ops @ [(Some h, ''screen -ls'')]\<rparr>))
   \<and> ((\<forall>ss. fst (getBatchServerStatus ops h now tr) \<noteq> Fulfilled (Sessions h ss)) \<longrightarrow>
       screenSessionCache (snd (getBatchServerStatus ops h now tr)) = screenSessionCache ops)"
proof -
  have "getBatchServerStatus ops h now tr
         = (Fulfilled (Failure (''No server configured for host '' @ h)), ops)"
    if "\<forall>(name, c) \<in> set (config ops). host c \<noteq> h"
    using find_host_None [OF that] by (simp add: getBatchServerStatus_def)
  moreover have "getBatchServerStatus ops h now (Delivers evs)
         = (Fulfilled (SshDownHost h),
            ops\<lparr>connections := connections ops @ [(Some h, ''screen -ls'')]\<rparr>)"
    if "batch_server (config ops) h = Some serverName" "serverName \<noteq> []"
      "first_terminal (connecting 500) evs = Some SshDown"
    using that by (rule getBatchServerStatus_transport_failure)
  moreover have "screenSessionCache (snd (getBatchServerStatus ops h now tr))
      = screenSessionCache ops"
    if "\<forall>ss. fst (getBatchServerStatus ops h now tr) \<noteq> Fulfilled (Sessions h ss)"
    using that by (rule getBatchServerStatus_frame)
  ultimately show ?thesis by blast
qed

theorem failed_batch_leaves_cache_witness:
  "map (\<lambda>(name, c). host c) (config sample_ops) = [''node1'']
   \<and> getBatchServerStatus sample_ops ''nowhere'' 1000 (Delivers [ConnError])
       = (Fulfilled (Failure ''No server configured for host nowhere''), sample_ops)
   \<and> batch_server (config sample_ops) ''node1'' = Some ''alpha''
   \<and> first_terminal (connecting 500) [ConnError] = Some SshDown
   \<and> getBatchServerStatus sample_ops ''node1'' 1000 (Delivers [ConnError])
       = (Fulfilled (SshDownHost ''node1''),
          sample_ops\<lparr>connections := [(Some ''node1'', ''screen -ls'')]\<rparr>)
   \<and> screenSessionCache (snd (getBatchServerStatus sample_ops ''node1'' 1000
        (Delivers [ConnError])))
       = screenSessionCache sample_ops"
proof -
  have srv: "batch_server (config sample_ops) ''node1'' = Some ''alpha''"
    by (simp add: batch_server_def sample_ops_def sample_server_def)
  have ft: "first_terminal (connecting 500) [ConnError] = Some SshDown"
    by simp
  have hosts: "map (\<lambda>(name, c). host c) (config sample_ops) = [''node1'']"
    by (simp add: sample_ops_def sample_server_def)
  note thm1 = failed_batch_leaves_cache
    [where ops = sample_ops and h = "''nowhere''" and now = 1000 and tr = "Delivers [ConnError]"
       and serverName = "''alpha''" and evs = "[ConnError]"]
  note thm2 = failed_batch_leaves_cache
    [where ops = sample_ops and h = "''node1''" and now = 1000 and tr = "Delivers [ConnError]"
       and serverName = "''alpha''" and evs = "[ConnError]"]
  from thm1 have a: "getBatchServerStatus sample_ops ''nowhere'' 1000 (Delivers [ConnError])
       = (Fulfilled (Failure ''No server configured for host nowhere''), sample_ops)"
    by (simp add: sample_ops_def sample_server_def)
  from thm2 srv ft
  have b: "getBatchServerStatus sample_ops ''node1'' 1000 (Delivers [ConnError])
       = (Fulfilled (SshDownHost ''node1''),
          sample_ops\<lparr>connections := connections sample_ops @ [(Some ''node1'', ''screen -ls'')]\<rparr>)"
    by simp
  then have b': "getBatchServerStatus sample_ops ''node1'' 1000 (Delivers [ConnError])
       = (Fulfilled (SshDownHost ''node1''),
          sample_ops\<lparr>connections := [(Some ''node1'', ''screen -ls'')]\<rparr>)"
    by (simp add: sample_ops_def)
  from thm2 b' have c: "screenSessionCache (snd (getBatchServerStatus sample_ops ''node1'' 1000
        (Delivers [ConnError])))
       = screenSessionCache sample_ops"
    by simp
  from hosts a srv ft b' c show ?thesis by simp
qed

text \<open>
  C7 as stated fails in its last clause. When \<^verbatim>\<open>conn.connect\<close> throws, the call is
  rejected and returns no result. When the connection is ready and the command never
  ends, the timeout has been cleared and the call stays pending. In both cases the
  cache is untouched.
\<close>

theorem failed_batch_without_result_counterexample:
  "getBatchServerStatus sample_ops ''node1'' 1000 ConnectThrows
     = (Rejected ConnectFailure,
        sample_ops\<lparr>connections := [(Some ''node1'', ''screen -ls'')]\<rparr>)
   \<and> getBatchServerStatus sample_ops ''node1'' 1000
        (Delivers [Ready, ExecStream, TimeoutElapsed])
     = (Pending, sample_ops\<lparr>connections := [(Some ''node1'', ''screen -ls'')]\<rparr>)"
  by (simp add: getBatchServerStatus_def batch_server_def executeCommand_def config_lookup_def
      sample_ops_def sample_server_def run_def connecting_def cleanup_def)

lemma getServerStatus_success:
  assumes "map_of (config ops) serverName = Some c"
    and "getServerStatus ops serverName now tr = (Fulfilled r, ops')"
    and "success r"
  shows "config ops' = config ops
       \<and> length (connections ops') \<le> length (connections ops) + 1
       \<and> (\<exists>entry. screenSessionCache ops' (host c) = Some entry
             \<and> r = Status (screen_name c \<in> set (sessions entry))
             \<and> (connections ops' \<noteq> connections ops \<longrightarrow> timestamp entry = now)
             \<and> (connections ops' = connections ops \<longrightarrow> ops' = ops \<and> now - timestamp entry < 5000))"
  using assms
  by (auto simp: getServerStatus_def status_after_await_def executeCommand_def
      config_lookup_own Let_def
      split: option.splits if_splits prod.splits completion.splits result.splits list.splits
        transport.splits)

text \<open>
  C5, as the code has it. After a \<^verbatim>\<open>getServerStatus\<close> call that has returned with
  success, the host has a cache entry, stamped with the start time of that call
  whenever the call queried the host, and the call opened at most one connection. A
  second call for a server on the same host that starts after that return, in any
  later state \<open>later\<close> in which the entry of the host is still the same, and less
  than 5000 ms after the stamp of the entry, answers the membership of its session
  name in the cached list and changes nothing: it opens no connection.
\<close>

theorem second_status_served_from_cache:
  assumes "map_of (config ops) name1 = Some c1"
    and "getServerStatus ops name1 t1 tr1 = (Fulfilled r, ops')"
    and "success r"
    and "map_of (config later) name2 = Some c2"
    and "host c2 = host c1"
    and "screenSessionCache later (host c1) = screenSessionCache ops' (host c1)"
  shows "length (connections ops') \<le> length (connections ops) + 1
       \<and> (\<exists>entry. screenSessionCache ops' (host c1) = Some entry
             \<and> (connections ops' \<noteq> connections ops \<longrightarrow> timestamp entry = t1)
             \<and> (t2 - timestamp entry < 5000 \<longrightarrow>
                  getServerStatus later name2 t2 tr2
                    = (Fulfilled (Status (screen_name c2 \<in> set (sessions entry))), later)))"
proof -
  from getServerStatus_success [OF assms(1,2,3)] obtain entry where
    len: "length (connections ops') \<le> length (connections ops) + 1"
    and entry: "screenSessionCache ops' (host c1) = Some entry"
    and stamp: "connections ops' \<noteq> connections ops \<longrightarrow> timestamp entry = t1"
    by blast
  have "getServerStatus later name2 t2 tr2
      = (Fulfilled (Status (screen_name c2 \<in> set (sessions entry))), later)"
    if "t2 - timestamp entry < 5000"
    using assms(4,5,6) entry that by (intro getServerStatus_hit) simp_all
  with len entry stamp show ?thesis by blast
qed

theorem second_status_served_from_cache_witness:
  "map_of (config sample_ops) ''alpha'' = Some sample_server
   \<and> getServerStatus sample_ops ''alpha'' 1000
       (Delivers [Ready, ExecStream, StreamData 0 ''1234.worker_a'', StreamClose 0 (Some 0) None])
     = (Fulfilled (Status True),
        sample_ops\<lparr>connections := [(Some ''node1'', ''screen -ls'')],
          screenSessionCache := [''node1'' \<mapsto> \<lparr>timestamp = 1000, sessions = [''worker_a'']\<rparr>]\<rparr>)
   \<and> success (Status True)
   \<and> (5999::int) - 1000 < 5000
   \<and> getServerStatus
        (sample_ops\<lparr>connections := [(Some ''node1'', ''screen -ls'')],
          screenSessionCache := [''node1'' \<mapsto> \<lparr>timestamp = 1000, sessions = [''worker_a'']\<rparr>]\<rparr>)
        ''alpha'' 5999 (Delivers [ConnError])
     = (Fulfilled (Status True),
        sample_ops\<lparr>connections := [(Some ''node1'', ''screen -ls'')],
          screenSessionCache := [''node1'' \<mapsto> \<lparr>timestamp = 1000, sessions = [''worker_a'']\<rparr>]\<rparr>)"
proof -
  have reg: "map_of (config sample_ops) ''alpha'' = Some sample_server"
    by (simp add: sample_ops_def)
  have first: "getServerStatus sample_ops ''alpha'' 1000
       (Delivers [Ready, ExecStream, StreamData 0 ''1234.worker_a'', StreamClose 0 (Some 0) None])
     = (Fulfilled (Status True),
        sample_ops\<lparr>connections := [(Some ''node1'', ''screen -ls'')],
          screenSessionCache := [''node1'' \<mapsto> \<lparr>timestamp = 1000, sessions = [''worker_a'']\<rparr>]\<rparr>)"
    by (simp add: getServerStatus_def status_after_await_def executeCommand_def
        config_lookup_def sample_ops_def sample_server_def
        run_def connecting_def cleanup_def settle_def parse_sessions_def match_here_def Let_def
        is_digit_def is_space_def)
  have ok: "success (Status True)" by simp
  have reg': "map_of (config (sample_ops\<lparr>connections := [(Some ''node1'', ''screen -ls'')],
          screenSessionCache := [''node1'' \<mapsto> \<lparr>timestamp = 1000, sessions = [''worker_a'']\<rparr>]\<rparr>))
        ''alpha'' = Some sample_server"
    by (simp add: sample_ops_def)
  from second_status_served_from_cache [OF reg first ok reg' refl refl, of 5999
      "Delivers [ConnError]"] reg first
  show ?thesis by (simp add: sample_server_def sample_ops_def)
qed

text \<open>
  C5 as stated fails in three ways, each within 5000 ms and without any other write
  to the entry. The first call fails: nothing is cached, and the second call, 100 ms
  later, queries the host again. The first call is served, at time 4000, from an
  entry stamped 0: the second call, at time 6000, finds the entry stale and queries
  the host. The second call starts, 100 ms after the first, while the first still
  awaits its command: the entry is not written yet, and the second call opens a
  connection of its own.
\<close>

theorem second_status_queries_again_counterexample:
  "getServerStatus sample_ops ''alpha'' 0 (Delivers [ConnError])
     = (Fulfilled SshDown, sample_ops\<lparr>connections := [(Some ''node1'', ''screen -ls'')]\<rparr>)
   \<and> connections (snd (getServerStatus
        (sample_ops\<lparr>connections := [(Some ''node1'', ''screen -ls'')]\<rparr>) ''alpha'' 100
        (Delivers [Ready, ExecStream, StreamClose 0 (Some 0) None])))
       = [(Some ''node1'', ''screen -ls''), (Some ''node1'', ''screen -ls'')]
   \<and> getServerStatus
        (sample_ops\<lparr>screenSessionCache :=
           [''node1'' \<mapsto> \<lparr>timestamp = 0, sessions = [''worker_a'']\<rparr>]\<rparr>)
        ''alpha'' 4000 (Delivers [ConnError])
     = (Fulfilled (Status True),
        sample_ops\<lparr>screenSessionCache :=
           [''node1'' \<mapsto> \<lparr>timestamp = 0, sessions = [''worker_a'']\<rparr>]\<rparr>)
   \<and> connections (snd (getServerStatus
        (sample_ops\<lparr>screenSessionCache :=
           [''node1'' \<mapsto> \<lparr>timestamp = 0, sessions = [''worker_a'']\<rparr>]\<rparr>)
        ''alpha'' 6000 (Delivers [ConnError])))
       = [(Some ''node1'', ''screen -ls'')]
   \<and> snd (executeCommand sample_ops ''alpha'' ''screen -ls'' 500
        (Delivers [Ready, ExecStream, StreamClose 0 (Some 0) None]))
       = sample_ops\<lparr>connections := [(Some ''node1'', ''screen -ls'')]\<rparr>
   \<and> connections (snd (getServerStatus
        (snd (executeCommand sample_ops ''alpha'' ''screen -ls'' 500
           (Delivers [Ready, ExecStream, StreamClose 0 (Some 0) None])))
        ''alpha'' 100 (Delivers [Ready, ExecStream, StreamClose 0 (Some 0) None])))
       = [(Some ''node1'', ''screen -ls''), (Some ''node1'', ''screen -ls'')]"
  by (simp add: getServerStatus_def status_after_await_def executeCommand_def config_lookup_def
      sample_ops_def sample_server_def run_def connecting_def cleanup_def settle_def
      parse_sessions_def match_here_def Let_def)

section \<open>Saving a snapshot\<close>

lemma map_of_append_new:
  "k \<notin> fst ` set kvs \<Longrightarrow> map_of (kvs @ [(k, v)]) = (map_of kvs)(k \<mapsto> v)"
  by (induction kvs) (auto simp: fun_eq_iff)

lemma replicate_numeral: "replicate (numeral k) x = x # replicate (pred_numeral k) x"
  by (simp add: numeral_eq_Suc)

lemma sample_ts: "timestamp_key sample_date = ''24/05/01 03:04:09.007000''"
  by (simp add: timestamp_key_def sample_date_def pad_def padStart_def Let_def digit_char_def
      replicate_numeral)

text \<open>
  C9, as the code has it. For a host with a server, let the remote text parse to a
  JSON object with the entries \<open>kvs\<close>, or let \<open>kvs\<close> be empty and the read fail, the
  text be empty or not parse. When \<open>kvs\<close> lacks the new time stamp, the content
  handed to \<^verbatim>\<open>writeRemoteFile\<close> is the serialisation of \<open>kvs\<close> followed by the time
  stamp mapped to the snapshot, and the result is that of the write: every old key
  keeps its value, and the keys are the old ones and the time stamp.
\<close>

theorem save_snapshot_is_additive:
  assumes "getServerForHost cfg h = Some server"
    and "(read_reply = TransferDone d \<and> d \<noteq> [] \<and> parse d = Some (JObj kvs))
       \<or> (kvs = []
           \<and> (read_reply = TransferDone d \<and> (d = [] \<or> parse d = None)
               \<or> read_reply = ConnectionError msg \<or> read_reply = SftpError msg
               \<or> read_reply = TransferError msg))"
    and "timestamp_key now \<notin> fst ` set kvs"
  shows "saveRemoteAflConfig parse stringify cfg h cfgObj now read_reply write_reply
           = (writeRemoteFile cfg h (''/home/'' @ username server @ ''/.afl/config.json'')
                (stringify (JObj (kvs @ [(timestamp_key now, cfgObj)]))) write_reply,
              Some (''/home/'' @ username server @ ''/.afl/config.json'',
                    stringify (JObj (kvs @ [(timestamp_key now, cfgObj)]))))
       \<and> map_of (kvs @ [(timestamp_key now, cfgObj)]) (timestamp_key now) = Some cfgObj
       \<and> (\<forall>k \<in> fst ` set kvs.
             map_of (kvs @ [(timestamp_key now, cfgObj)]) k = map_of kvs k)
       \<and> fst ` set (kvs @ [(timestamp_key now, cfgObj)])
           = insert (timestamp_key now) (fst ` set kvs)"
proof -
  from assms(2) obtain rd where
    rd: "readRemoteFile cfg h (''/home/'' @ username server @ ''/.afl/config.json'') read_reply
           = Fulfilled rd"
    and doc: "existing_document parse rd = JObj kvs"
    using assms(1) by (auto simp: readRemoteFile_def existing_document_def)
  have "saveRemoteAflConfig parse stringify cfg h cfgObj now read_reply write_reply
           = (writeRemoteFile cfg h (''/home/'' @ username server @ ''/.afl/config.json'')
                (stringify (JObj (kvs @ [(timestamp_key now, cfgObj)]))) write_reply,
              Some (''/home/'' @ username server @ ''/.afl/config.json'',
                    stringify (JObj (kvs @ [(timestamp_key now, cfgObj)]))))"
    using assms(1,3) rd doc by (simp add: saveRemoteAflConfig_def Let_def obj_set_def)
  moreover have eq: "map_of (kvs @ [(timestamp_key now, cfgObj)])
      = (map_of kvs)(timestamp_key now \<mapsto> cfgObj)"
    using assms(3) by (rule map_of_append_new)
  then have "map_of (kvs @ [(timestamp_key now, cfgObj)]) (timestamp_key now) = Some cfgObj"
    by simp
  moreover have "\<forall>k \<in> fst ` set kvs.
      map_of (kvs @ [(timestamp_key now, cfgObj)]) k = map_of kvs k"
  proof
    fix k
    assume "k \<in> fst ` set kvs"
    with assms(3) have "k \<noteq> timestamp_key now" by blast
    then show "map_of (kvs @ [(timestamp_key now, cfgObj)]) k = map_of kvs k"
      unfolding eq by simp
  qed
  moreover have "fst ` set (kvs @ [(timestamp_key now, cfgObj)])
      = insert (timestamp_key now) (fst ` set kvs)"
    by simp
  ultimately show ?thesis by blast
qed

theorem save_snapshot_is_additive_witness:
  "getServerForHost (config sample_ops) ''node1'' = Some sample_server
   \<and> sample_parse ''old'' = Some (JObj [(''24/01/02 10:00:00.000000'', JPrim 1)])
   \<and> timestamp_key sample_date = ''24/05/01 03:04:09.007000''
   \<and> saveRemoteAflConfig sample_parse key_list (config sample_ops) ''node1'' (JPrim 2)
        sample_date (TransferDone ''old'') (TransferDone ())
       = (Fulfilled WriteOk,
          Some (''/home/afl/.afl/config.json'',
                ''24/01/02 10:00:00.000000;24/05/01 03:04:09.007000;''))
   \<and> saveRemoteAflConfig sample_parse key_list (config sample_ops) ''node1'' (JPrim 2)
        sample_date (TransferError ''No such file'') (TransferDone ())
       = (Fulfilled WriteOk,
          Some (''/home/afl/.afl/config.json'', ''24/05/01 03:04:09.007000;''))"
proof -
  have srv: "getServerForHost (config sample_ops) ''node1'' = Some sample_server"
    by (simp add: getServerForHost_def sample_ops_def sample_server_def)
  have p: "sample_parse ''old'' = Some (JObj [(''24/01/02 10:00:00.000000'', JPrim 1)])"
    by (simp add: sample_parse_def)
  have new: "timestamp_key sample_date \<notin> fst ` set [(''24/01/02 10:00:00.000000'', JPrim (1::nat))]"
    by (simp add: sample_ts)
  have new': "timestamp_key sample_date \<notin> fst ` set ([] :: (string \<times> nat json) list)"
    by simp
  have usr: "username sample_server = ''afl''"
    by (simp add: sample_server_def)
  from save_snapshot_is_additive
    [where cfg = "config sample_ops" and h = "''node1''" and server = sample_server
       and read_reply = "TransferDone ''old''" and d = "''old''" and parse = sample_parse
       and kvs = "[(''24/01/02 10:00:00.000000'', JPrim 1)]" and now = sample_date
       and stringify = key_list and cfgObj = "JPrim 2" and write_reply = "TransferDone ()",
       OF srv _ new] p
  have a: "saveRemoteAflConfig sample_parse key_list (config sample_ops) ''node1'' (JPrim 2)
        sample_date (TransferDone ''old'') (TransferDone ())
       = (Fulfilled WriteOk,
          Some (''/home/afl/.afl/config.json'',
                ''24/01/02 10:00:00.000000;24/05/01 03:04:09.007000;''))"
    by (simp add: sample_ts usr writeRemoteFile_def srv)
  from save_snapshot_is_additive
    [where cfg = "config sample_ops" and h = "''node1''" and server = sample_server
       and read_reply = "TransferError ''No such file''" and msg = "''No such file''"
       and parse = sample_parse and kvs = "[]" and now = sample_date
       and stringify = key_list and cfgObj = "JPrim 2" and write_reply = "TransferDone ()",
       OF srv _ new']
  have b: "saveRemoteAflConfig sample_parse key_list (config sample_ops) ''node1'' (JPrim 2)
        sample_date (TransferError ''No such file'') (TransferDone ())
       = (Fulfilled WriteOk,
          Some (''/home/afl/.afl/config.json'', ''24/05/01 03:04:09.007000;''))"
    by (simp add: sample_ts usr writeRemoteFile_def srv)
  from srv p sample_ts a b show ?thesis by simp
qed

text \<open>
  C9 as stated fails when the remote text parses to something that is no object.
  From the text \<^verbatim>\<open>[]\<close> the array is written back as it was, without the snapshot,
  and the call reports success. From the text \<^verbatim>\<open>5\<close> the assignment throws: the
  call is rejected and nothing is written.
\<close>

theorem save_snapshot_lost_counterexample:
  "sample_parse ''[]'' = Some (JArr [])
   \<and> saveRemoteAflConfig sample_parse key_list (config sample_ops) ''node1'' (JPrim 2)
        sample_date (TransferDone ''[]'') (TransferDone ())
       = (Fulfilled WriteOk, Some (''/home/afl/.afl/config.json'', key_list (JArr [])))
   \<and> sample_parse ''5'' = Some (JPrim 5)
   \<and> saveRemoteAflConfig sample_parse key_list (config sample_ops) ''node1'' (JPrim 2)
        sample_date (TransferDone ''5'') (TransferDone ())
       = (Rejected TypeError, None)"
  by (simp add: saveRemoteAflConfig_def readRemoteFile_def writeRemoteFile_def
      existing_document_def getServerForHost_def sample_parse_def sample_ops_def
      sample_server_def Let_def)

end
